theory Spec2Isabelle
  imports Main
begin

section \<open>Python text operations\<close>

text \<open>
  A Python \<open>str\<close> is modelled as a \<open>string\<close> whose characters are code points below 256
  (Latin-1). On this range \<open>str.isspace\<close> holds for the twelve characters of \<open>whitespace\<close>
  and \<open>str.lower\<close> maps \<open>A..Z\<close> and \<open>U+00C0..U+00DE\<close> (without the multiplication sign
  \<open>U+00D7\<close>) to the character 32 places later, leaving every other character alone.
  Texts with code points beyond Latin-1 are outside the model.
\<close>

definition whitespace :: "char list" where
  "whitespace = [CHR 0x09, CHR 0x0A, CHR 0x0B, CHR 0x0C, CHR 0x0D,
                 CHR 0x1C, CHR 0x1D, CHR 0x1E, CHR 0x1F, CHR 0x20, CHR 0x85, CHR 0xA0]"

definition isspace :: "char \<Rightarrow> bool" where
  "isspace c = (c \<in> set whitespace)"

definition uppercase :: "char list" where
  "uppercase = ''ABCDEFGHIJKLMNOPQRSTUVWXYZ'' @
     [CHR 0xC0, CHR 0xC1, CHR 0xC2, CHR 0xC3, CHR 0xC4, CHR 0xC5, CHR 0xC6, CHR 0xC7,
      CHR 0xC8, CHR 0xC9, CHR 0xCA, CHR 0xCB, CHR 0xCC, CHR 0xCD, CHR 0xCE, CHR 0xCF,
      CHR 0xD0, CHR 0xD1, CHR 0xD2, CHR 0xD3, CHR 0xD4, CHR 0xD5, CHR 0xD6,
      CHR 0xD8, CHR 0xD9, CHR 0xDA, CHR 0xDB, CHR 0xDC, CHR 0xDD, CHR 0xDE]"

definition lowercase :: "char list" where
  "lowercase = ''abcdefghijklmnopqrstuvwxyz'' @
     [CHR 0xE0, CHR 0xE1, CHR 0xE2, CHR 0xE3, CHR 0xE4, CHR 0xE5, CHR 0xE6, CHR 0xE7,
      CHR 0xE8, CHR 0xE9, CHR 0xEA, CHR 0xEB, CHR 0xEC, CHR 0xED, CHR 0xEE, CHR 0xEF,
      CHR 0xF0, CHR 0xF1, CHR 0xF2, CHR 0xF3, CHR 0xF4, CHR 0xF5, CHR 0xF6,
      CHR 0xF8, CHR 0xF9, CHR 0xFA, CHR 0xFB, CHR 0xFC, CHR 0xFD, CHR 0xFE]"

definition lower_char :: "char \<Rightarrow> char" where
  "lower_char c = (case map_of (zip uppercase lowercase) c of None \<Rightarrow> c | Some d \<Rightarrow> d)"

text \<open>\<open>s.lower()\<close>\<close>

definition lower :: "string \<Rightarrow> string" where
  "lower s = map lower_char s"

text \<open>\<open>s.strip()\<close>: leading and trailing whitespace removed.\<close>

definition strip :: "string \<Rightarrow> string" where
  "strip s = rev (dropWhile isspace (rev (dropWhile isspace s)))"

text \<open>
  \<open>s.split()\<close> without arguments: the maximal runs of non-whitespace characters, in order.
  The first argument is the run collected so far.
\<close>

fun split_ws :: "string \<Rightarrow> string \<Rightarrow> string list" where
  "split_ws w [] = (if w = [] then [] else [w])"
| "split_ws w (c # cs) =
     (if isspace c then (if w = [] then split_ws [] cs else w # split_ws [] cs)
      else split_ws (w @ [c]) cs)"

text \<open>\<open>sep.join(ws)\<close>\<close>

fun join :: "string \<Rightarrow> string list \<Rightarrow> string" where
  "join sep [] = []"
| "join sep [w] = w"
| "join sep (w # v # ws) = w @ sep @ join sep (v # ws)"

text \<open>\<open>s.startswith(p)\<close> and the substring test \<open>sub in s\<close>.\<close>

fun startswith :: "string \<Rightarrow> string \<Rightarrow> bool" where
  "startswith s [] = True"
| "startswith [] (p # ps) = False"
| "startswith (c # cs) (p # ps) = (c = p \<and> startswith cs ps)"

fun contains :: "string \<Rightarrow> string \<Rightarrow> bool" where
  "contains sub [] = (sub = [])"
| "contains sub (c # cs) = (startswith (c # cs) sub \<or> contains sub cs)"

text \<open>\<open>any(word in s for word in words)\<close>\<close>

definition contains_any :: "string list \<Rightarrow> string \<Rightarrow> bool" where
  "contains_any words s = list_ex (\<lambda>word. contains word s) words"

section \<open>The browser session as the scrapers see it\<close>

text \<open>
  A Selenium call either returns its value or raises. \<open>TimedOut\<close> is
  \<open>TimeoutException\<close>, \<open>NoSuchElement\<close> is \<open>NoSuchElementException\<close>, \<open>Raised\<close> is any other
  exception (a stale element, a lost session).
\<close>

datatype 'a outcome = Found 'a | TimedOut | NoSuchElement | Raised

text \<open>
  A located element: \<open>element.text\<close>, \<open>element.tag_name\<close> and
  \<open>element.get_attribute(name)\<close>, which returns \<open>None\<close> for a missing attribute.
\<close>

record element =
  elem_text :: "string outcome"
  tag_name :: "string outcome"
  get_attribute :: "string \<Rightarrow> string option outcome"

text \<open>
  A rendered document, queried by CSS selector.
  \<open>wait_presence sel\<close> is \<open>wait.until(EC.presence_of_element_located((By.CSS_SELECTOR, sel)))\<close>,
  \<open>wait_visibility sel\<close> the same with \<open>visibility_of_element_located\<close>,
  \<open>find_element\<close> and \<open>find_elements\<close> are the driver's methods of these names.
\<close>

record page =
  wait_presence :: "string \<Rightarrow> element outcome"
  wait_visibility :: "string \<Rightarrow> element outcome"
  find_element :: "string \<Rightarrow> element outcome"
  find_elements :: "string \<Rightarrow> element list outcome"

text \<open>
  The driver commands that change the document: \<open>driver.get(url)\<close>,
  \<open>driver.execute_script(script)\<close>, and \<open>driver.execute_script(script, element)\<close> for the
  element that \<open>find_element\<close> located by the given selector. Each returns the document
  shown afterwards, or raises.
\<close>

record driver =
  navigate :: "string \<Rightarrow> page outcome"
  execute_script :: "string \<Rightarrow> page \<Rightarrow> page outcome"
  execute_script_on :: "string \<Rightarrow> string \<Rightarrow> page \<Rightarrow> page outcome"

section \<open>job\_page\_scraper.py: selector catalogs\<close>

type_synonym catalog = "(string \<times> string list) list"

definition VIEW_PAGE_SELECTORS :: catalog where
  "VIEW_PAGE_SELECTORS =
    [(''title'',
       [''.top-card-layout__title'',
        ''.top-card-layout__title h1'',
        ''h1.top-card-layout__title'',
        ''.job-details-jobs-unified-top-card__job-title h1'',
        ''.job-details-jobs-unified-top-card__job-title'']),
     (''company_name'',
       [''.top-card-layout__second-subline a.topcard__org-name-link'',
        ''.topcard__org-name-link'',
        ''.top-card-layout__second-subline a'',
        ''.job-details-jobs-unified-top-card__company-name'',
        ''.job-details-jobs-unified-top-card__company-name a'']),
     (''location'',
       [''.top-card-layout__second-subline > div:first-child'',
        ''.topcard__flavor--bullet'',
        ''.job-details-jobs-unified-top-card__bullet'']),
     (''description_container'',
       [''.description__text'',
        ''.jobs-description-content__text'',
        ''.jobs-description__content'',
        ''.job-details-jobs-unified-top-card__job-description'',
        ''.jobs-box__html-content'']),
     (''description_show_more_button'',
       [''.description__footer-button'',
        ''.jobs-description__footer-button'',
        ''.jobs-description-content__footer button'',
        ''button[data-tracking-control-name='public_jobs_show-more-html-btn']'']),
     (''criteria_list'',
       [''.description__job-criteria-list li'',
        ''.job-details-jobs-unified-top-card__job-insight'',
        ''.jobs-unified-top-card__job-insight'',
        ''.job-details-jobs-unified-top-card__job-insight-view-model''])]"

definition SEARCH_PAGE_SELECTORS :: catalog where
  "SEARCH_PAGE_SELECTORS =
    [(''details_pane'',
       [''.scaffold-layout__detail'',
        ''.jobs-search__job-details'',
        ''.job-details-jobs-unified-top-card'']),
     (''title'',
       [''.job-details-jobs-unified-top-card__job-title'',
        ''.job-details-jobs-unified-top-card__job-title h1'',
        ''.jobs-unified-top-card__job-title'',
        ''.jobs-unified-top-card__job-title h1'']),
     (''company_name'',
       [''div.job-details-jobs-unified-top-card__primary-description-container a'',
        ''.job-details-jobs-unified-top-card__company-name'',
        ''.job-details-jobs-unified-top-card__company-name a'',
        ''.jobs-unified-top-card__subtitle-primary-grouping a'']),
     (''location'',
       [''div.job-details-jobs-unified-top-card__primary-description-container > div:nth-child(2)'',
        ''.job-details-jobs-unified-top-card__bullet'',
        ''.jobs-unified-top-card__bullet'']),
     (''description_container'',
       [''.jobs-description-content__text'',
        ''.jobs-description__content'',
        ''.job-details-jobs-unified-top-card__job-description'',
        ''.jobs-box__html-content'']),
     (''description_show_more_button'',
       [''.jobs-description__footer-button'',
        ''.jobs-description-content__footer button'',
        ''button[data-tracking-control-name='public_jobs_show-more-html-btn']'']),
     (''criteria_list'',
       [''.job-details-jobs-unified-top-card__job-insight'',
        ''.jobs-unified-top-card__job-insight'',
        ''.job-details-jobs-unified-top-card__job-insight-view-model''])]"

text \<open>\<open>self.selectors.get(selector_key, [])\<close>\<close>

definition selectors_get :: "catalog \<Rightarrow> string \<Rightarrow> string list" where
  "selectors_get cat selector_key =
     (case map_of cat selector_key of None \<Rightarrow> [] | Some sels \<Rightarrow> sels)"

section \<open>job\_page\_scraper.py: LinkedInJobScraper\<close>

text \<open>
  \<open>_detect_page_type\<close>: the page type is a Python string, \<open>'search'\<close> or \<open>'view'\<close>; the
  \<open>else\<close> branch returns \<open>'search'\<close> as well.
\<close>

definition detect_page_type :: "string \<Rightarrow> string" where
  "detect_page_type job_url =
     (if contains ''/jobs/search/'' job_url then ''search''
      else if contains ''/jobs/view/'' job_url then ''view''
      else ''search'')"

text \<open>
  The scraper object after \<open>__init__\<close>: the address, the driver, the page type derived from
  the address and the catalog chosen by it.
\<close>

record scraper =
  job_url :: string
  drv :: driver
  page_type :: string
  selectors :: catalog

definition init :: "string \<Rightarrow> driver \<Rightarrow> scraper" where
  "init url d =
     \<lparr>job_url = url, drv = d, page_type = detect_page_type url,
      selectors = (if detect_page_type url = ''search''
                   then SEARCH_PAGE_SELECTORS else VIEW_PAGE_SELECTORS)\<rparr>"

text \<open>
  The loop of \<open>_get_element_text_with_fallbacks\<close> over the selector list: a selector
  whose wait times out or raises, whose element's text raises, or whose stripped text is
  empty, is passed over.
\<close>

fun text_with_fallbacks :: "page \<Rightarrow> string list \<Rightarrow> string option" where
  "text_with_fallbacks p [] = None"
| "text_with_fallbacks p (selector # rest) =
     (case wait_presence p selector of
        Found el \<Rightarrow>
          (case elem_text el of
             Found t \<Rightarrow> (if strip t \<noteq> [] then Some (strip t) else text_with_fallbacks p rest)
           | _ \<Rightarrow> text_with_fallbacks p rest)
      | _ \<Rightarrow> text_with_fallbacks p rest)"

definition get_element_text_with_fallbacks :: "catalog \<Rightarrow> page \<Rightarrow> string \<Rightarrow> string option" where
  "get_element_text_with_fallbacks cat p selector_key =
     text_with_fallbacks p (selectors_get cat selector_key)"

text \<open>
  What one selector yields for the text resolver: the stripped text of the located element
  when there is one and it is not empty.
\<close>

definition yields_text :: "page \<Rightarrow> string \<Rightarrow> string option" where
  "yields_text p selector =
     (case wait_presence p selector of
        Found el \<Rightarrow>
          (case elem_text el of
             Found t \<Rightarrow> (if strip t \<noteq> [] then Some (strip t) else None)
           | _ \<Rightarrow> None)
      | _ \<Rightarrow> None)"

section \<open>job\_page\_scraper.py: the record extractor\<close>

text \<open>
  The loop of \<open>_get_element_html_with_fallbacks\<close>: \<open>get_attribute('innerHTML')\<close> may
  return \<open>None\<close>; the markup counts when it is not \<open>None\<close> and not blank.
\<close>

fun html_with_fallbacks :: "page \<Rightarrow> string list \<Rightarrow> string option" where
  "html_with_fallbacks p [] = None"
| "html_with_fallbacks p (selector # rest) =
     (case wait_presence p selector of
        Found el \<Rightarrow>
          (case get_attribute el ''innerHTML'' of
             Found (Some html) \<Rightarrow>
               (if html \<noteq> [] \<and> strip html \<noteq> [] then Some (strip html)
                else html_with_fallbacks p rest)
           | _ \<Rightarrow> html_with_fallbacks p rest)
      | _ \<Rightarrow> html_with_fallbacks p rest)"

definition get_element_html_with_fallbacks :: "catalog \<Rightarrow> page \<Rightarrow> string \<Rightarrow> string option" where
  "get_element_html_with_fallbacks cat p selector_key =
     html_with_fallbacks p (selectors_get cat selector_key)"

text \<open>
  The comprehension \<open>[elem.text.strip() for elem in elements if elem.text.strip()]\<close>:
  \<open>None\<close> when reading some element's text raises.
\<close>

fun stripped_texts :: "element list \<Rightarrow> string list option" where
  "stripped_texts [] = Some []"
| "stripped_texts (el # els) =
     (case elem_text el of
        Found t \<Rightarrow>
          (case stripped_texts els of
             None \<Rightarrow> None
           | Some ts \<Rightarrow> Some (if strip t \<noteq> [] then strip t # ts else ts))
      | _ \<Rightarrow> None)"

fun multiple_texts :: "page \<Rightarrow> string list \<Rightarrow> string list" where
  "multiple_texts p [] = []"
| "multiple_texts p (selector # rest) =
     (case find_elements p selector of
        Found els \<Rightarrow>
          (if els \<noteq> [] then
             (case stripped_texts els of
                Some ts \<Rightarrow> (if ts \<noteq> [] then ts else multiple_texts p rest)
              | None \<Rightarrow> multiple_texts p rest)
           else multiple_texts p rest)
      | _ \<Rightarrow> multiple_texts p rest)"

definition get_multiple_elements_text :: "catalog \<Rightarrow> page \<Rightarrow> string \<Rightarrow> string list" where
  "get_multiple_elements_text cat p selector_key =
     multiple_texts p (selectors_get cat selector_key)"

text \<open>
  \<open>_expand_description\<close>: the first selector whose button is found, scrolled to and
  clicked ends the loop; the document shown afterwards is returned. A selector whose
  button is missing, or whose script raises, is passed over.
\<close>

fun expand_loop :: "driver \<Rightarrow> page \<Rightarrow> string list \<Rightarrow> page" where
  "expand_loop d p [] = p"
| "expand_loop d p (selector # rest) =
     (case find_element p selector of
        Found show_more_button \<Rightarrow>
          (case execute_script_on d ''arguments[0].scrollIntoView({block: 'center'});'' selector p of
             Found p1 \<Rightarrow>
               (case execute_script_on d ''arguments[0].click();'' selector p1 of
                  Found p2 \<Rightarrow> p2
                | _ \<Rightarrow> expand_loop d p1 rest)
           | _ \<Rightarrow> expand_loop d p rest)
      | _ \<Rightarrow> expand_loop d p rest)"

definition expand_description :: "scraper \<Rightarrow> page \<Rightarrow> page" where
  "expand_description s p =
     expand_loop (drv s) p (selectors_get (selectors s) ''description_show_more_button'')"

text \<open>An exception that no handler of the scraper catches.\<close>

datatype error = DriverError

text \<open>\<open>_scroll_and_wait\<close>: two scripts, neither guarded.\<close>

definition scroll_and_wait :: "scraper \<Rightarrow> page \<Rightarrow> error + page" where
  "scroll_and_wait s p =
     (case execute_script (drv s) ''window.scrollTo(0, document.body.scrollHeight);'' p of
        Found p1 \<Rightarrow>
          (case execute_script (drv s) ''window.scrollTo(0, 0);'' p1 of
             Found p2 \<Rightarrow> Inr p2
           | _ \<Rightarrow> Inl DriverError)
      | _ \<Rightarrow> Inl DriverError)"

text \<open>
  \<open>_extract_additional_info\<close>. The posting date is the stripped text of the first date
  selector whose element is found and read.
\<close>

definition date_selectors :: "string list" where
  "date_selectors =
     [''.job-details-jobs-unified-top-card__primary-description-container time'',
      ''.jobs-unified-top-card__posted-date'',
      ''.job-details-jobs-unified-top-card__posted-date'']"

definition job_type_selectors :: "string list" where
  "job_type_selectors =
     [''.job-details-jobs-unified-top-card__job-insight span'',
      ''.jobs-unified-top-card__job-insight span'']"

definition seniority_keywords :: "string list" where
  "seniority_keywords = [''entry level'', ''associate'', ''mid-senior'', ''director'', ''executive'']"

fun posted_date_loop :: "page \<Rightarrow> string list \<Rightarrow> string option" where
  "posted_date_loop p [] = None"
| "posted_date_loop p (selector # rest) =
     (case find_element p selector of
        Found date_element \<Rightarrow>
          (case elem_text date_element of
             Found t \<Rightarrow> Some (strip t)
           | _ \<Rightarrow> posted_date_loop p rest)
      | _ \<Rightarrow> posted_date_loop p rest)"

text \<open>
  The job type: within one selector's elements the first whose lower-cased text contains
  a job-type word is taken and ends both loops; an element whose text raises ends the
  scan of that selector without a result.
\<close>

fun job_type_scan :: "element list \<Rightarrow> string option" where
  "job_type_scan [] = None"
| "job_type_scan (elem # elems) =
     (case elem_text elem of
        Found t \<Rightarrow>
          (if contains_any [''full-time'', ''part-time'', ''contract'', ''internship'']
                (lower (strip t))
           then Some (strip t) else job_type_scan elems)
      | _ \<Rightarrow> None)"

fun job_type_loop :: "page \<Rightarrow> string list \<Rightarrow> string option" where
  "job_type_loop p [] = None"
| "job_type_loop p (selector # rest) =
     (case find_elements p selector of
        Found elems \<Rightarrow>
          (case job_type_scan elems of
             Some t \<Rightarrow> Some t
           | None \<Rightarrow> job_type_loop p rest)
      | _ \<Rightarrow> job_type_loop p rest)"

text \<open>
  The seniority level: the inner \<open>break\<close> leaves only the keyword loop, so within one
  selector every matching element overwrites the value. The scan returns the value so far
  and whether it ended by an exception; after an exception the \<open>continue\<close> of the handler
  goes on to the next selector, keeping the value.
\<close>

fun seniority_scan :: "element list \<Rightarrow> string option \<Rightarrow> string option \<times> bool" where
  "seniority_scan [] acc = (acc, False)"
| "seniority_scan (elem # elems) acc =
     (case elem_text elem of
        Found t \<Rightarrow>
          (if contains_any seniority_keywords (lower (strip t))
           then seniority_scan elems (Some (strip t))
           else seniority_scan elems acc)
      | _ \<Rightarrow> (acc, True))"

fun seniority_loop :: "page \<Rightarrow> string list \<Rightarrow> string option \<Rightarrow> string option" where
  "seniority_loop p [] acc = acc"
| "seniority_loop p (selector # rest) acc =
     (case find_elements p selector of
        Found elems \<Rightarrow>
          (case seniority_scan elems acc of
             (acc', True) \<Rightarrow> seniority_loop p rest acc'
           | (acc', False) \<Rightarrow> (if acc' \<noteq> None then acc' else seniority_loop p rest acc'))
      | _ \<Rightarrow> seniority_loop p rest acc)"

text \<open>The dictionary \<open>additional_info\<close>: each of its three keys may be absent.\<close>

record additional_info =
  ai_posted_date :: "string option"
  ai_job_type :: "string option"
  ai_seniority_level :: "string option"

definition extract_additional_info :: "page \<Rightarrow> additional_info" where
  "extract_additional_info p =
     \<lparr>ai_posted_date = posted_date_loop p date_selectors,
      ai_job_type = job_type_loop p job_type_selectors,
      ai_seniority_level = seniority_loop p job_type_selectors None\<rparr>"

text \<open>
  The salary scan over the criteria. The source's list also holds the euro and rupee
  signs, which lie beyond Latin-1 and so occur in no text of the model.
\<close>

definition salary_markers :: "string list" where
  "salary_markers = [''$'', [CHR 0xA3], ''salary'', ''compensation'', ''pay'']"

fun find_salary :: "string list \<Rightarrow> string option" where
  "find_salary [] = None"
| "find_salary (criterion # rest) =
     (if contains_any salary_markers (lower criterion) then Some criterion
      else find_salary rest)"

text \<open>
  The dictionary \<open>job_data\<close> that \<open>run\<close> returns. The keys up to \<open>scraped_at\<close> are always
  present, with \<open>None\<close> as a possible value where the field is optional; the last three
  come from \<open>additional_info\<close> and are present only when found.
\<close>

record job_data =
  job_title :: string
  company_name :: "string option"
  location :: "string option"
  salary_info :: "string option"
  job_criteria :: "string list"
  job_description_html :: "string option"
  job_description_text :: "string option"
  url :: string
  scraped_at :: string
  posted_date :: "string option"
  job_type :: "string option"
  seniority_level :: "string option"

text \<open>
  The wait for the details pane on a search page: a timeout goes on to the next selector,
  any other exception leaves \<open>run\<close>.
\<close>

fun details_pane_loop :: "page \<Rightarrow> string list \<Rightarrow> error + bool" where
  "details_pane_loop p [] = Inr False"
| "details_pane_loop p (selector # rest) =
     (case wait_visibility p selector of
        Found _ \<Rightarrow> Inr True
      | TimedOut \<Rightarrow> details_pane_loop p rest
      | _ \<Rightarrow> Inl DriverError)"

text \<open>
  \<open>run\<close> up to the line "Extracting job details": navigation, the wait for the details
  pane, scrolling, expansion. It ends with the document the fields are read from, or
  with an uncaught exception of the driver.
\<close>

definition load_document :: "scraper \<Rightarrow> error + page" where
  "load_document s =
     (case navigate (drv s) (job_url s) of
        Found p0 \<Rightarrow>
          (case (if page_type s = ''search''
                 then details_pane_loop p0 (selectors_get (selectors s) ''details_pane'')
                 else Inr True) of
             Inl e \<Rightarrow> Inl e
           | Inr pane_loaded \<Rightarrow>
               (case scroll_and_wait s p0 of
                  Inl e \<Rightarrow> Inl e
                | Inr p1 \<Rightarrow> Inr (expand_description s p1)))
      | _ \<Rightarrow> Inl DriverError)"

text \<open>
  The rest of \<open>run\<close>, on the loaded document; \<open>now\<close> is the formatted reading of the clock.
  \<open>if not title\<close> holds for \<open>None\<close> and for the empty string.
\<close>

definition extract_details :: "scraper \<Rightarrow> page \<Rightarrow> string \<Rightarrow> job_data option" where
  "extract_details s p now =
     (case get_element_text_with_fallbacks (selectors s) p ''title'' of
        None \<Rightarrow> None
      | Some title \<Rightarrow>
          if title = [] then None
          else
            (let company = get_element_text_with_fallbacks (selectors s) p ''company_name'';
                 loc = get_element_text_with_fallbacks (selectors s) p ''location'';
                 description_html =
                   get_element_html_with_fallbacks (selectors s) p ''description_container'';
                 description_text =
                   get_element_text_with_fallbacks (selectors s) p ''description_container'';
                 criteria = get_multiple_elements_text (selectors s) p ''criteria_list'';
                 info = extract_additional_info p
             in Some \<lparr>job_title = title, company_name = company, location = loc,
                      salary_info = find_salary criteria, job_criteria = criteria,
                      job_description_html = description_html,
                      job_description_text = description_text,
                      url = job_url s, scraped_at = now,
                      posted_date = ai_posted_date info, job_type = ai_job_type info,
                      seniority_level = ai_seniority_level info\<rparr>))"

definition run :: "scraper \<Rightarrow> string \<Rightarrow> error + job_data option" where
  "run s now =
     (case load_document s of
        Inl e \<Rightarrow> Inl e
      | Inr p \<Rightarrow> Inr (extract_details s p now))"

section \<open>linkedin\_job\_reporter\_ui.py: the listing extractor\<close>

text \<open>
  The values a job dictionary holds: strings, and \<open>None\<close> (the \<open>href\<close> of a link without
  that attribute). A job dictionary maps its keys to such values.
\<close>

datatype pyval = Str string | NoneVal

type_synonym job = "string \<rightharpoonup> pyval"

text \<open>Python truthiness of \<open>d.get(key)\<close>: a missing key, \<open>None\<close> and the empty string are falsy.\<close>

fun truthy :: "pyval option \<Rightarrow> bool" where
  "truthy (Some (Str s)) = (s \<noteq> [])"
| "truthy (Some NoneVal) = False"
| "truthy None = False"

text \<open>A job card: \<open>card.find_element(By.CSS_SELECTOR, sel)\<close>.\<close>

record card =
  card_find_element :: "string \<Rightarrow> element outcome"

text \<open>
  The results page: \<open>wait.until(EC.presence_of_all_elements_located((By.CSS_SELECTOR, sel)))\<close>.
\<close>

record results_page =
  wait_all :: "string \<Rightarrow> card list outcome"

definition job_card_selectors :: "string list" where
  "job_card_selectors =
     [''.jobs-search-results__list-item'',
      ''.job-card-container'',
      ''.jobs-search-results-list__item'',
      ''[data-job-id]'',
      ''.job-card-list'']"

definition title_selectors :: "string list" where
  "title_selectors =
     [''.base-search-card__title'',
      ''.job-card-list__title'',
      ''.jobs-unified-top-card__job-title'',
      ''.job-card-container__link'',
      ''h3 a'',
      ''.job-card-list__title-link'',
      ''.job-card-list__title a'']"

definition company_selectors :: "string list" where
  "company_selectors =
     [''.artdeco-entity-lockup__subtitle'',
      ''.base-search-card__subtitle'',
      ''.job-card-container__company-name'',
      ''.job-card-list__subtitle'',
      ''.job-card-container__subtitle'',
      ''.artdeco-entity-lockup__subtitle span'',
      ''h4'',
      ''.job-card-list__company-name'']"

definition location_selectors :: "string list" where
  "location_selectors =
     [''.job-search-card__location'',
      ''.artdeco-entity-lockup__caption'',
      ''.job-card-container__metadata-item'',
      ''.jobs-unified-top-card__bullet'',
      ''.job-card-container__metadata-wrapper'',
      ''.job-card-list__metadata'',
      ''.job-card-container__secondary-description'']"

definition time_selectors :: "string list" where
  "time_selectors =
     [''.job-card-container__metadata-item time'',
      ''.jobs-unified-top-card__subtitle-secondary-grouping time'',
      ''.job-card-list__metadata time'',
      ''time'']"

definition desc_selectors :: "string list" where
  "desc_selectors =
     [''.job-card-list__footer-wrapper'',
      ''.job-card-container__snippet'',
      ''.job-card-list__snippet'']"

text \<open>\<open>' '.join(text.strip().split())\<close>\<close>

definition normalize_spaces :: "string \<Rightarrow> string" where
  "normalize_spaces t = join '' '' (split_ws [] (strip t))"

text \<open>
  What one selector yields on a card, in each of the loops below: the text of the element,
  when the element is found and its text is read; and that text normalised.
\<close>

definition read_text :: "card \<Rightarrow> string \<Rightarrow> string option" where
  "read_text c selector =
     (case card_find_element c selector of
        Found el \<Rightarrow> (case elem_text el of Found raw \<Rightarrow> Some raw | _ \<Rightarrow> None)
      | _ \<Rightarrow> None)"

definition candidate_text :: "card \<Rightarrow> string \<Rightarrow> string option" where
  "candidate_text c selector = map_option normalize_spaces (read_text c selector)"

text \<open>The value stored for an \<open>href\<close>.\<close>

definition href_val :: "string option \<Rightarrow> pyval" where
  "href_val h = (case h of None \<Rightarrow> NoneVal | Some s \<Rightarrow> Str s)"

text \<open>
  The link of a title element: the element's own \<open>href\<close> when it is an anchor, else that
  of the anchor below it; when either attempt raises, the card's view link; when that
  raises too, no \<open>job_link\<close> key.
\<close>

definition fallback_link :: "card \<Rightarrow> job \<Rightarrow> job" where
  "fallback_link c job_data =
     (case card_find_element c ''a.base-card__full-link, a[href*='/jobs/view/']'' of
        Found link_element \<Rightarrow>
          (case get_attribute link_element ''href'' of
             Found h \<Rightarrow> job_data(''job_link'' \<mapsto> href_val h)
           | _ \<Rightarrow> job_data)
      | _ \<Rightarrow> job_data)"

definition job_link_of :: "card \<Rightarrow> string \<Rightarrow> element \<Rightarrow> job \<Rightarrow> job" where
  "job_link_of c selector title_element job_data =
     (case tag_name title_element of
        Found tag \<Rightarrow>
          (if tag = ''a'' then
             (case get_attribute title_element ''href'' of
                Found h \<Rightarrow> job_data(''job_link'' \<mapsto> href_val h)
              | _ \<Rightarrow> fallback_link c job_data)
           else
             (case card_find_element c (selector @ '' a'') of
                Found link_element \<Rightarrow>
                  (case get_attribute link_element ''href'' of
                     Found h \<Rightarrow> job_data(''job_link'' \<mapsto> href_val h)
                   | _ \<Rightarrow> fallback_link c job_data)
              | _ \<Rightarrow> fallback_link c job_data))
      | _ \<Rightarrow> fallback_link c job_data)"

text \<open>The title loop: the first selector whose element has a non-empty normalised text.\<close>

fun title_loop :: "card \<Rightarrow> string list \<Rightarrow> job \<Rightarrow> job" where
  "title_loop c [] job_data = job_data"
| "title_loop c (selector # rest) job_data =
     (case card_find_element c selector of
        Found title_element \<Rightarrow>
          (case elem_text title_element of
             Found raw \<Rightarrow>
               (if normalize_spaces raw \<noteq> []
                then job_link_of c selector title_element
                       (job_data(''title'' \<mapsto> Str (normalize_spaces raw)))
                else title_loop c rest job_data)
           | _ \<Rightarrow> title_loop c rest job_data)
      | _ \<Rightarrow> title_loop c rest job_data)"

text \<open>
  The test of the company loop on a normalised candidate: not empty, shorter than 100
  characters, and none of the job-title words in its lower-cased form.
\<close>

definition company_words :: "string list" where
  "company_words =
     [''analyst'', ''engineer'', ''manager'', ''developer'', ''specialist'', ''intern'', ''associate'']"

definition company_accepts :: "string \<Rightarrow> bool" where
  "company_accepts company_text \<longleftrightarrow>
     company_text \<noteq> [] \<and> length company_text > 0 \<and> length company_text < 100
     \<and> \<not> contains_any company_words (lower company_text)"

fun company_loop :: "card \<Rightarrow> string list \<Rightarrow> job \<Rightarrow> job" where
  "company_loop c [] job_data = job_data"
| "company_loop c (selector # rest) job_data =
     (case card_find_element c selector of
        Found company_element \<Rightarrow>
          (case elem_text company_element of
             Found raw \<Rightarrow>
               (if company_accepts (normalize_spaces raw)
                then job_data(''company'' \<mapsto> Str (normalize_spaces raw))
                else company_loop c rest job_data)
           | _ \<Rightarrow> company_loop c rest job_data)
      | _ \<Rightarrow> company_loop c rest job_data)"

definition location_words :: "string list" where
  "location_words =
     [''ago'', ''hour'', ''day'', ''week'', ''month'', ''year'', ''posted'', ''within'']"

definition location_accepts :: "string \<Rightarrow> bool" where
  "location_accepts location_text \<longleftrightarrow>
     location_text \<noteq> [] \<and> \<not> contains_any location_words (lower location_text)"

fun location_loop :: "card \<Rightarrow> string list \<Rightarrow> job \<Rightarrow> job" where
  "location_loop c [] job_data = job_data"
| "location_loop c (selector # rest) job_data =
     (case card_find_element c selector of
        Found location_element \<Rightarrow>
          (case elem_text location_element of
             Found raw \<Rightarrow>
               (if location_accepts (normalize_spaces raw)
                then job_data(''location'' \<mapsto> Str (normalize_spaces raw))
                else location_loop c rest job_data)
           | _ \<Rightarrow> location_loop c rest job_data)
      | _ \<Rightarrow> location_loop c rest job_data)"

text \<open>The posted time: the stripped text of the first element found and read, empty or not.\<close>

fun time_loop :: "card \<Rightarrow> string list \<Rightarrow> job \<Rightarrow> job" where
  "time_loop c [] job_data = job_data"
| "time_loop c (selector # rest) job_data =
     (case card_find_element c selector of
        Found time_element \<Rightarrow>
          (case elem_text time_element of
             Found raw \<Rightarrow> job_data(''posted_time'' \<mapsto> Str (strip raw))
           | _ \<Rightarrow> time_loop c rest job_data)
      | _ \<Rightarrow> time_loop c rest job_data)"

text \<open>The description snippet: the first 200 characters and three dots.\<close>

fun desc_loop :: "card \<Rightarrow> string list \<Rightarrow> job \<Rightarrow> job" where
  "desc_loop c [] job_data = job_data"
| "desc_loop c (selector # rest) job_data =
     (case card_find_element c selector of
        Found desc_element \<Rightarrow>
          (case elem_text desc_element of
             Found raw \<Rightarrow> job_data(''description'' \<mapsto> Str (take 200 (strip raw) @ ''...''))
           | _ \<Rightarrow> desc_loop c rest job_data)
      | _ \<Rightarrow> desc_loop c rest job_data)"

text \<open>The three sentinel steps \<open>if not job_data.get(key): job_data[key] = ...\<close>.\<close>

definition default_to :: "string \<Rightarrow> string \<Rightarrow> job \<Rightarrow> job" where
  "default_to k sentinel job_data =
     (if \<not> truthy (job_data k) then job_data(k \<mapsto> Str sentinel) else job_data)"

text \<open>
  The body of the loop over the cards, for one card; \<open>now\<close> is the formatted clock reading
  taken for it. Every call of the body that can raise stands under a bare \<open>except\<close>, so
  the body always reaches \<open>jobs.append(job_data)\<close>.
\<close>

definition extract_card :: "card \<Rightarrow> string \<Rightarrow> job" where
  "extract_card c now =
     (let job_data = Map.empty;
          job_data = title_loop c title_selectors job_data;
          job_data = default_to ''title'' ''Title not found'' job_data;
          job_data = company_loop c company_selectors job_data;
          job_data = default_to ''company'' ''Company not found'' job_data;
          job_data = location_loop c location_selectors job_data;
          job_data = default_to ''location'' ''Location not found'' job_data;
          job_data = time_loop c time_selectors job_data;
          job_data = desc_loop c desc_selectors job_data
      in job_data(''extracted_at'' \<mapsto> Str now))"

text \<open>
  The search for the job cards: a selector that times out, or that yields an empty list,
  is passed over; any other exception is caught by the outer handler of
  \<open>extract_job_listings\<close>, which is the result \<open>None\<close> here.
\<close>

fun job_cards_loop :: "results_page \<Rightarrow> string list \<Rightarrow> card list option" where
  "job_cards_loop pg [] = Some []"
| "job_cards_loop pg (selector # rest) =
     (case wait_all pg selector of
        Found job_cards \<Rightarrow> (if job_cards \<noteq> [] then Some job_cards else job_cards_loop pg rest)
      | TimedOut \<Rightarrow> job_cards_loop pg rest
      | _ \<Rightarrow> None)"

text \<open>The slice \<open>xs[:n]\<close> for a Python integer \<open>n\<close>: a negative \<open>n\<close> counts from the end.\<close>

definition slice_to :: "'a list \<Rightarrow> int \<Rightarrow> 'a list" where
  "slice_to xs n = (if 0 \<le> n then take (nat n) xs else take (nat (int (length xs) + n)) xs)"

text \<open>\<open>for i, card in enumerate(cards): jobs.append(...)\<close>, from index \<open>i\<close> on.\<close>

fun cards_loop :: "card list \<Rightarrow> nat \<Rightarrow> (nat \<Rightarrow> string) \<Rightarrow> job list" where
  "cards_loop [] i clock = []"
| "cards_loop (c # cs) i clock = extract_card c (clock i) # cards_loop cs (Suc i) clock"

text \<open>
  \<open>extract_job_listings(driver, max_jobs, debug_mode)\<close>. \<open>clock i\<close> is the clock reading
  taken for the card of index \<open>i\<close>. The debug helper only prints and catches its own
  exceptions, so \<open>debug_mode\<close> does not change the result.
\<close>

definition extract_job_listings :: "results_page \<Rightarrow> int \<Rightarrow> bool \<Rightarrow> (nat \<Rightarrow> string) \<Rightarrow> job list" where
  "extract_job_listings pg max_jobs debug_mode clock =
     (case job_cards_loop pg job_card_selectors of
        None \<Rightarrow> []
      | Some job_cards \<Rightarrow>
          (if job_cards = [] then []
           else cards_loop (slice_to job_cards max_jobs) 0 clock))"

text \<open>The cards the search finds: none when every selector fails or the search raises.\<close>

definition located_cards :: "results_page \<Rightarrow> card list" where
  "located_cards pg =
     (case job_cards_loop pg job_card_selectors of None \<Rightarrow> [] | Some job_cards \<Rightarrow> job_cards)"

section \<open>linkedin\_job\_reporter\_ui.py: the aggregator\<close>

text \<open>
  \<open>collections.Counter\<close>, as Python documents it: a dictionary from keys to counts that
  keeps its keys in the order of their first insertion. \<open>increment k c\<close> is
  \<open>c[k] += 1\<close>: a key already present keeps its place, a new key goes to the end.
\<close>

fun increment :: "'k \<Rightarrow> ('k \<times> nat) list \<Rightarrow> ('k \<times> nat) list" where
  "increment k [] = [(k, 1)]"
| "increment k ((k', n) # rest) =
     (if k = k' then (k', n + 1) # rest else (k', n) # increment k rest)"

text \<open>
  \<open>c.most_common(n)\<close> is \<open>heapq.nlargest(n, c.items(), key=count)\<close>, which Python
  documents as \<open>sorted(c.items(), key=count, reverse=True)[:n]\<close>; the sort is stable, so
  items of equal count stay in the counter's order. \<open>dict(...)\<close> of the result keeps the
  pairs in that order.
\<close>

definition most_common :: "nat \<Rightarrow> ('k \<times> nat) list \<Rightarrow> ('k \<times> nat) list" where
  "most_common n c = take n (sort_key (\<lambda>item. - int (snd item)) c)"

text \<open>\<open>job.get(key, dflt)\<close>\<close>

definition job_get :: "job \<Rightarrow> string \<Rightarrow> pyval \<Rightarrow> pyval" where
  "job_get j k dflt = (case j k of None \<Rightarrow> dflt | Some v \<Rightarrow> v)"

text \<open>The three counting loops over the jobs; the second argument is the counter so far.\<close>

fun count_companies :: "job list \<Rightarrow> (pyval \<times> nat) list \<Rightarrow> (pyval \<times> nat) list" where
  "count_companies [] company_counter = company_counter"
| "count_companies (j # rest) company_counter =
     (let company = job_get j ''company'' (Str ''Unknown'') in
      if company \<noteq> Str ''Company not found''
      then count_companies rest (increment company company_counter)
      else count_companies rest company_counter)"

fun count_locations :: "job list \<Rightarrow> (pyval \<times> nat) list \<Rightarrow> (pyval \<times> nat) list" where
  "count_locations [] location_counter = location_counter"
| "count_locations (j # rest) location_counter =
     (let loc = job_get j ''location'' (Str ''Unknown'') in
      if loc \<noteq> Str ''Location not found''
      then count_locations rest (increment loc location_counter)
      else count_locations rest location_counter)"

fun count_times :: "job list \<Rightarrow> (pyval \<times> nat) list \<Rightarrow> (pyval \<times> nat) list" where
  "count_times [] time_counter = time_counter"
| "count_times (j # rest) time_counter =
     (let posted_time = job_get j ''posted_time'' (Str ''Unknown'') in
      if truthy (Some posted_time)
      then count_times rest (increment posted_time time_counter)
      else count_times rest time_counter)"

text \<open>The vocabulary of the title scan, in the order of the source.\<close>

definition keyword_list :: "string list" where
  "keyword_list = [''analyst'', ''senior'', ''junior'', ''manager'', ''engineer'', ''developer'',
               ''specialist'', ''lead'', ''principal'', ''director'']"

text \<open>The inner loop: one lower-cased title against the vocabulary.\<close>

fun count_keywords :: "string \<Rightarrow> string list \<Rightarrow> (pyval \<times> nat) list \<Rightarrow> (pyval \<times> nat) list" where
  "count_keywords title [] keyword_counter = keyword_counter"
| "count_keywords title (keyword # rest) keyword_counter =
     (if contains keyword title
      then count_keywords title rest (increment (Str keyword) keyword_counter)
      else count_keywords title rest keyword_counter)"

text \<open>
  The outer loop. \<open>job.get('title', '').lower()\<close> raises \<open>AttributeError\<close> when the title
  is \<open>None\<close>; nothing in \<open>analyze_job_data\<close> catches it.
\<close>

datatype py_error = AttributeError

fun count_titles :: "job list \<Rightarrow> (pyval \<times> nat) list \<Rightarrow> py_error + (pyval \<times> nat) list" where
  "count_titles [] keyword_counter = Inr keyword_counter"
| "count_titles (j # rest) keyword_counter =
     (case job_get j ''title'' (Str []) of
        NoneVal \<Rightarrow> Inl AttributeError
      | Str t \<Rightarrow>
          (let title = lower t in
           if title \<noteq> [] \<and> title \<noteq> ''title not found''
           then count_titles rest (count_keywords title keyword_list keyword_counter)
           else count_titles rest keyword_counter))"

text \<open>The values of the dictionary \<open>analysis\<close>: a number, a string, or a table of counts.\<close>

datatype aval = AInt nat | AStr string | ATable "(pyval \<times> nat) list"

text \<open>
  \<open>analyze_job_data(jobs)\<close>; \<open>now\<close> is the formatted reading of the clock that the source
  stores under \<open>extraction_date\<close>.
\<close>

definition analyze_job_data :: "job list \<Rightarrow> string \<Rightarrow> py_error + (string \<rightharpoonup> aval)" where
  "analyze_job_data jobs now =
     (if jobs = [] then Inr Map.empty
      else
        (let company_counter = count_companies jobs [];
             location_counter = count_locations jobs [];
             time_counter = count_times jobs []
         in case count_titles jobs [] of
              Inl e \<Rightarrow> Inl e
            | Inr keyword_counter \<Rightarrow>
                Inr [''total_jobs'' \<mapsto> AInt (length jobs),
                     ''extraction_date'' \<mapsto> AStr now,
                     ''companies'' \<mapsto> ATable (most_common 10 company_counter),
                     ''locations'' \<mapsto> ATable (most_common 10 location_counter),
                     ''posting_times'' \<mapsto> ATable (most_common 10 time_counter),
                     ''title_keywords'' \<mapsto> ATable (most_common 10 keyword_counter),
                     ''unique_companies'' \<mapsto> AInt (length company_counter),
                     ''unique_locations'' \<mapsto> AInt (length location_counter)]))"

text \<open>
  The keys the three counting loops and the title scan count, in the order they count
  them. The counters are these key sequences counted one by one (lemmas
  \<open>count_companies_keys\<close> to \<open>count_titles_keys\<close> below).
\<close>

definition company_keys :: "job list \<Rightarrow> pyval list" where
  "company_keys jobs =
     filter (\<lambda>v. v \<noteq> Str ''Company not found'')
       (map (\<lambda>j. job_get j ''company'' (Str ''Unknown'')) jobs)"

definition location_keys :: "job list \<Rightarrow> pyval list" where
  "location_keys jobs =
     filter (\<lambda>v. v \<noteq> Str ''Location not found'')
       (map (\<lambda>j. job_get j ''location'' (Str ''Unknown'')) jobs)"

definition time_keys :: "job list \<Rightarrow> pyval list" where
  "time_keys jobs =
     filter (\<lambda>v. truthy (Some v))
       (map (\<lambda>j. job_get j ''posted_time'' (Str ''Unknown'')) jobs)"

text \<open>The vocabulary words one job's title is counted under: none for a title that is
  missing, empty, \<open>None\<close> or the title sentinel.\<close>

definition title_words :: "job \<Rightarrow> string list" where
  "title_words j =
     (case job_get j ''title'' (Str []) of
        NoneVal \<Rightarrow> []
      | Str t \<Rightarrow>
          (if lower t \<noteq> [] \<and> lower t \<noteq> ''title not found''
           then filter (\<lambda>keyword. contains keyword (lower t)) keyword_list else []))"

definition keyword_keys :: "job list \<Rightarrow> pyval list" where
  "keyword_keys jobs = concat (map (\<lambda>j. map Str (title_words j)) jobs)"

text \<open>
  \<open>first_seen_before ks a b\<close>: the key \<open>a\<close> occurs in \<open>ks\<close>, and \<open>b\<close> is another key that
  does not occur before the first occurrence of \<open>a\<close>.
\<close>

definition first_seen_before :: "'k list \<Rightarrow> 'k \<Rightarrow> 'k \<Rightarrow> bool" where
  "first_seen_before ks a b \<longleftrightarrow>
     a \<noteq> b \<and> a \<in> set ks \<and> b \<notin> set (takeWhile (\<lambda>k. k \<noteq> a) ks)"

text \<open>
  \<open>ranked ks tab\<close>: the table \<open>tab\<close> gives each of its keys the number of its occurrences
  in \<open>ks\<close>, and of two entries the earlier one has the larger count or, at equal counts,
  the key first seen earlier in \<open>ks\<close>.
\<close>

definition ranked :: "'k list \<Rightarrow> ('k \<times> nat) list \<Rightarrow> bool" where
  "ranked ks tab \<longleftrightarrow>
     (\<forall>i < length tab. snd (tab ! i) = count_list ks (fst (tab ! i)) \<and> 0 < snd (tab ! i))
     \<and> (\<forall>i j. i < j \<and> j < length tab \<longrightarrow>
           snd (tab ! j) < snd (tab ! i)
           \<or> (snd (tab ! j) = snd (tab ! i)
               \<and> first_seen_before ks (fst (tab ! i)) (fst (tab ! j))))"

text \<open>
  \<open>top_view n ks tab\<close>: \<open>tab\<close> is the first \<open>n\<close> entries of a ranking of all the keys that
  occur in \<open>ks\<close>, each key once.
\<close>

definition top_view :: "nat \<Rightarrow> 'k list \<Rightarrow> ('k \<times> nat) list \<Rightarrow> bool" where
  "top_view n ks tab \<longleftrightarrow>
     (\<exists>full. tab = take n full \<and> ranked ks full \<and> distinct (map fst full)
        \<and> fst ` set full = set ks)"

section \<open>Sample documents\<close>

definition text_element :: "string \<Rightarrow> element" where
  "text_element t = \<lparr>elem_text = Found t, tag_name = Found ''div'', get_attribute = (\<lambda>_. Found None)\<rparr>"

text \<open>A document whose only elements are those of the given selector/text table.\<close>

definition page_of :: "(string \<times> string) list \<Rightarrow> page" where
  "page_of tab =
     \<lparr>wait_presence = (\<lambda>sel. case map_of tab sel of
                                None \<Rightarrow> TimedOut | Some t \<Rightarrow> Found (text_element t)),
      wait_visibility = (\<lambda>sel. case map_of tab sel of
                                None \<Rightarrow> TimedOut | Some t \<Rightarrow> Found (text_element t)),
      find_element = (\<lambda>sel. case map_of tab sel of
                                None \<Rightarrow> NoSuchElement | Some t \<Rightarrow> Found (text_element t)),
      find_elements = (\<lambda>sel. case map_of tab sel of
                                None \<Rightarrow> Found [] | Some t \<Rightarrow> Found [text_element t])\<rparr>"

text \<open>A driver whose commands succeed and leave the document as it is.\<close>

definition still_driver :: "page \<Rightarrow> driver" where
  "still_driver p =
     \<lparr>navigate = (\<lambda>_. Found p), execute_script = (\<lambda>_ q. Found q),
      execute_script_on = (\<lambda>_ _ q. Found q)\<rparr>"

text \<open>A record as the listing extractor emits it for a card without a time element.\<close>

definition sample_job :: job where
  "sample_job = [''title'' \<mapsto> Str ''ML Engineer'', ''company'' \<mapsto> Str ''Acme'',
                 ''location'' \<mapsto> Str ''Pune'', ''extracted_at'' \<mapsto> Str ''2025-07-01 12:00:00'']"

text \<open>Six records with the companies A, B, A, C, B, A.\<close>

definition abc_jobs :: "job list" where
  "abc_jobs = map (\<lambda>c. [''company'' \<mapsto> Str c]) [''A'', ''B'', ''A'', ''C'', ''B'', ''A'']"

text \<open>The three records of the end-to-end scenario.\<close>

definition three_jobs :: "job list" where
  "three_jobs =
     [[''title'' \<mapsto> Str ''Senior ML Engineer'', ''company'' \<mapsto> Str ''Acme''],
      [''title'' \<mapsto> Str ''ML Engineer'', ''company'' \<mapsto> Str ''Acme''],
      [''title'' \<mapsto> Str ''Junior Data Analyst'', ''company'' \<mapsto> Str ''Beta'']]"

text \<open>
  A resolved record, one with the company and location sentinels, and one with an empty
  posted time.
\<close>

definition sentinel_jobs :: "job list" where
  "sentinel_jobs =
     [sample_job,
      sample_job(''company'' \<mapsto> Str ''Company not found'',
                 ''location'' \<mapsto> Str ''Location not found''),
      sample_job(''posted_time'' \<mapsto> Str '''')]"

text \<open>A card whose only elements are those of the given selector/text table.\<close>

definition card_of :: "(string \<times> string) list \<Rightarrow> card" where
  "card_of tab =
     \<lparr>card_find_element = (\<lambda>sel. case map_of tab sel of
                                    None \<Rightarrow> NoSuchElement | Some t \<Rightarrow> Found (text_element t))\<rparr>"

text \<open>A results page that shows the given cards under the first card selector.\<close>

definition results_of :: "card list \<Rightarrow> results_page" where
  "results_of cards =
     \<lparr>wait_all = (\<lambda>sel. if sel = ''.jobs-search-results__list-item'' \<and> cards \<noteq> []
                             then Found cards else TimedOut)\<rparr>"

text \<open>A company candidate of exactly 100 characters that holds no job-title word.\<close>

definition hundred_chars :: string where
  "hundred_chars =
     ''Acme Holdings and Trading Company of the United Provinces an'' @
     ''d Overseas Territories Public Limited Co''"

text \<open>A card with a job-title-like subtitle before the company, and one with nothing.\<close>

definition acme_card :: card where
  "acme_card = card_of [(''.base-search-card__title'', ''ML  Engineer''),
                        (''.artdeco-entity-lockup__subtitle'', ''Senior Engineer Team''),
                        (''.base-search-card__subtitle'', '' Acme   Corp ''),
                        (''.job-search-card__location'', ''Bengaluru, India'')]"

definition bare_card :: card where
  "bare_card = card_of []"

text \<open>A card that shows a company and a location, and no title.\<close>

definition untitled_card :: card where
  "untitled_card = card_of [(''.base-search-card__subtitle'', ''Acme Corp''),
                            (''.job-search-card__location'', ''Bengaluru, India'')]"

section \<open>Evaluation of the text operations\<close>

lemmas text_eval = whitespace_def isspace_def uppercase_def lowercase_def lower_char_def
  lower_def strip_def contains_any_def

section \<open>Page-type detection\<close>

lemma detect_page_type_cases:
  "detect_page_type addr =
     (if contains ''/jobs/view/'' addr \<and> \<not> contains ''/jobs/search/'' addr
      then ''view'' else ''search'')"
  by (simp add: detect_page_type_def)

text \<open>
  C3, as the code has it: an address with the marker \<open>/jobs/search/\<close> is of type
  \<open>'search'\<close>; one with \<open>/jobs/view/\<close> and without the search marker is of type \<open>'view'\<close>;
  every other address is of type \<open>'search'\<close> too (the detector has no third value), and
  the scraper built for an address uses the view catalog exactly for the type \<open>'view'\<close>
  and the search catalog otherwise.
\<close>

theorem detect_page_type_two_valued:
  "(contains ''/jobs/search/'' addr \<longrightarrow> detect_page_type addr = ''search'')
   \<and> (contains ''/jobs/view/'' addr \<and> \<not> contains ''/jobs/search/'' addr
        \<longrightarrow> detect_page_type addr = ''view'')
   \<and> (\<not> contains ''/jobs/search/'' addr \<and> \<not> contains ''/jobs/view/'' addr
        \<longrightarrow> detect_page_type addr = ''search'')
   \<and> page_type (init addr d) = detect_page_type addr
   \<and> selectors (init addr d) =
       (if detect_page_type addr = ''view'' then VIEW_PAGE_SELECTORS else SEARCH_PAGE_SELECTORS)"
  by (simp add: detect_page_type_def init_def)

text \<open>
  An address that carries neither marker: the detector answers \<open>'search'\<close>, the value it
  gives for search addresses, not a value of its own for unrecognised addresses.
\<close>

theorem detect_page_type_unmarked_is_search:
  "\<not> contains ''/jobs/search/'' ''https://www.linkedin.com/jobs/collections/recommended/''
   \<and> \<not> contains ''/jobs/view/'' ''https://www.linkedin.com/jobs/collections/recommended/''
   \<and> detect_page_type ''https://www.linkedin.com/jobs/collections/recommended/''
       = detect_page_type ''https://www.linkedin.com/jobs/search/?keywords=ML''
   \<and> detect_page_type ''https://www.linkedin.com/jobs/collections/recommended/'' = ''search''"
  by (simp add: detect_page_type_def)

theorem detect_page_type_two_valued_witness:
  "detect_page_type ''https://www.linkedin.com/jobs/view/4255281290'' = ''view''
   \<and> selectors (init ''https://www.linkedin.com/jobs/view/4255281290'' (still_driver (page_of [])))
       = VIEW_PAGE_SELECTORS
   \<and> detect_page_type ''https://www.linkedin.com/feed/'' = ''search''
   \<and> selectors (init ''https://www.linkedin.com/feed/'' (still_driver (page_of [])))
       = SEARCH_PAGE_SELECTORS"
  using detect_page_type_two_valued
          [of "''https://www.linkedin.com/jobs/view/4255281290''" "still_driver (page_of [])"]
        detect_page_type_two_valued
          [of "''https://www.linkedin.com/feed/''" "still_driver (page_of [])"]
  by simp

section \<open>The field resolver\<close>

lemma yields_text_iff:
  "yields_text p sel = Some t \<longleftrightarrow>
     (\<exists>el raw. wait_presence p sel = Found el \<and> elem_text el = Found raw
        \<and> t = strip raw \<and> strip raw \<noteq> [])"
  by (auto simp: yields_text_def split: outcome.splits)

lemma text_with_fallbacks_find:
  "text_with_fallbacks p sels =
     (case find (\<lambda>s. yields_text p s \<noteq> None) sels of
        None \<Rightarrow> None | Some s \<Rightarrow> yields_text p s)"
  by (induction sels) (auto simp: yields_text_def split: outcome.splits)

lemma text_with_fallbacks_None:
  "text_with_fallbacks p sels = None \<longleftrightarrow> (\<forall>i < length sels. yields_text p (sels ! i) = None)"
proof -
  have "text_with_fallbacks p sels = None \<longleftrightarrow> find (\<lambda>s. yields_text p s \<noteq> None) sels = None"
    by (auto simp: text_with_fallbacks_find split: option.splits dest: find_Some_iff[THEN iffD1])
  also have "\<dots> \<longleftrightarrow> (\<forall>s \<in> set sels. yields_text p s = None)"
    by (auto simp: find_None_iff)
  also have "\<dots> \<longleftrightarrow> (\<forall>i < length sels. yields_text p (sels ! i) = None)"
    by (simp add: all_set_conv_all_nth)
  finally show ?thesis .
qed

lemma text_with_fallbacks_Some:
  "text_with_fallbacks p sels = Some t \<longleftrightarrow>
     (\<exists>i < length sels. yields_text p (sels ! i) = Some t
        \<and> (\<forall>j < i. yields_text p (sels ! j) = None))"
proof
  assume "text_with_fallbacks p sels = Some t"
  then obtain s where f: "find (\<lambda>s. yields_text p s \<noteq> None) sels = Some s"
    and y: "yields_text p s = Some t"
    by (auto simp: text_with_fallbacks_find split: option.splits)
  from f obtain i where "i < length sels" "s = sels ! i"
    "\<forall>j < i. \<not> yields_text p (sels ! j) \<noteq> None"
    by (auto simp: find_Some_iff)
  with y show "\<exists>i < length sels. yields_text p (sels ! i) = Some t
        \<and> (\<forall>j < i. yields_text p (sels ! j) = None)"
    by auto
next
  assume "\<exists>i < length sels. yields_text p (sels ! i) = Some t
        \<and> (\<forall>j < i. yields_text p (sels ! j) = None)"
  then obtain i where i: "i < length sels" "yields_text p (sels ! i) = Some t"
    "\<forall>j < i. yields_text p (sels ! j) = None"
    by blast
  then have "find (\<lambda>s. yields_text p s \<noteq> None) sels = Some (sels ! i)"
    by (auto simp: find_Some_iff)
  with i show "text_with_fallbacks p sels = Some t"
    by (simp add: text_with_fallbacks_find)
qed

text \<open>
  C1. For every catalog, document and field key, with the field's selector list taken
  from the catalog: the resolver returns \<open>t\<close> exactly when some selector of the list
  yields \<open>t\<close> and every selector before it yields nothing; it returns none exactly when no
  selector of the list yields anything. A selector yields \<open>t\<close> exactly when its element
  is located, the element's text is read, and \<open>t\<close> is that text stripped and is not empty;
  so an element that is present with empty or whitespace-only text yields nothing and the
  next selector is tried.
\<close>

theorem get_element_text_with_fallbacks_first_nonempty:
  "(get_element_text_with_fallbacks cat p selector_key = Some t \<longleftrightarrow>
      (\<exists>i < length (selectors_get cat selector_key).
          yields_text p (selectors_get cat selector_key ! i) = Some t
          \<and> (\<forall>j < i. yields_text p (selectors_get cat selector_key ! j) = None)))
   \<and> (get_element_text_with_fallbacks cat p selector_key = None \<longleftrightarrow>
      (\<forall>i < length (selectors_get cat selector_key).
          yields_text p (selectors_get cat selector_key ! i) = None))
   \<and> (\<forall>sel u. yields_text p sel = Some u \<longleftrightarrow>
        (\<exists>el raw. wait_presence p sel = Found el \<and> elem_text el = Found raw
           \<and> u = strip raw \<and> strip raw \<noteq> []))
   \<and> (\<forall>sel el raw. wait_presence p sel = Found el \<and> elem_text el = Found raw
        \<and> strip raw = [] \<longrightarrow> yields_text p sel = None)"
  unfolding get_element_text_with_fallbacks_def
  using text_with_fallbacks_Some [of p "selectors_get cat selector_key" t]
        text_with_fallbacks_None [of p "selectors_get cat selector_key"]
        yields_text_iff [of p]
  by (simp add: yields_text_def)

text \<open>
  The list \<open>[.a, .b]\<close> on a document where \<open>.a\<close> is present with empty text and \<open>.b\<close> is
  present with the text \<open>Acme\<close>: the resolver returns \<open>Acme\<close>. Where \<open>.a\<close> holds only
  blanks and \<open>.b\<close> is missing, it returns none.
\<close>

theorem get_element_text_with_fallbacks_first_nonempty_witness:
  "get_element_text_with_fallbacks [(''company_name'', [''.a'', ''.b''])]
      (page_of [(''.a'', ''''), (''.b'', ''Acme'')]) ''company_name'' = Some ''Acme''
   \<and> get_element_text_with_fallbacks [(''company_name'', [''.a'', ''.b''])]
      (page_of [(''.a'', ''  ''), (''.c'', ''Acme'')]) ''company_name'' = None"
proof -
  let ?cat = "[(''company_name'', [''.a'', ''.b''])]"
  let ?p = "page_of [(''.a'', ''''), (''.b'', ''Acme'')]"
  let ?q = "page_of [(''.a'', ''  ''), (''.c'', ''Acme'')]"
  have sels: "selectors_get ?cat ''company_name'' = [''.a'', ''.b'']"
    by (simp add: selectors_get_def)
  have a: "yields_text ?p ''.a'' = None" and b: "yields_text ?p ''.b'' = Some ''Acme''"
    by (simp_all add: yields_text_def page_of_def text_element_def text_eval)
  have qa: "yields_text ?q ''.a'' = None" and qb: "yields_text ?q ''.b'' = None"
    by (simp_all add: yields_text_def page_of_def text_element_def text_eval)
  have "\<exists>i < length (selectors_get ?cat ''company_name'').
          yields_text ?p (selectors_get ?cat ''company_name'' ! i) = Some ''Acme''
          \<and> (\<forall>j < i. yields_text ?p (selectors_get ?cat ''company_name'' ! j) = None)"
    unfolding sels using a b by (intro exI[of _ 1]) simp
  moreover have "\<forall>i < length (selectors_get ?cat ''company_name'').
          yields_text ?q (selectors_get ?cat ''company_name'' ! i) = None"
    unfolding sels using qa qb by (simp add: less_Suc_eq)
  ultimately show ?thesis
    using get_element_text_with_fallbacks_first_nonempty
            [of ?cat ?p "''company_name''" "''Acme''"]
          get_element_text_with_fallbacks_first_nonempty
            [of ?cat ?q "''company_name''"]
    by blast
qed

section \<open>The record extractor\<close>

lemma text_with_fallbacks_nonempty:
  "text_with_fallbacks p sels = Some t \<Longrightarrow> t \<noteq> []"
  by (induction sels) (auto split: outcome.splits if_splits)

lemma get_element_text_with_fallbacks_nonempty:
  "get_element_text_with_fallbacks cat p selector_key = Some t \<Longrightarrow> t \<noteq> []"
  unfolding get_element_text_with_fallbacks_def by (rule text_with_fallbacks_nonempty)

lemma extract_details_None:
  "get_element_text_with_fallbacks (selectors s) p ''title'' = None
   \<Longrightarrow> extract_details s p now = None"
  by (simp add: extract_details_def)

lemma extract_details_Some:
  assumes "get_element_text_with_fallbacks (selectors s) p ''title'' = Some t"
  shows "\<exists>r. extract_details s p now = Some r \<and> job_title r = t
              \<and> url r = job_url s \<and> scraped_at r = now"
proof -
  from assms have "t \<noteq> []" by (rule get_element_text_with_fallbacks_nonempty)
  with assms show ?thesis by (simp add: extract_details_def Let_def)
qed

section \<open>Counters\<close>

lemma set_keys_increment: "fst ` set (increment k c) = insert k (fst ` set c)"
proof (induction c)
  case Nil
  show ?case by simp
next
  case (Cons x c)
  obtain a n where x: "x = (a, n)" by (cases x)
  show ?case unfolding x using Cons.IH by (cases "k = a") (simp_all add: insert_commute)
qed

lemma keys_increment:
  "map fst (increment k c) = (if k \<in> fst ` set c then map fst c else map fst c @ [k])"
proof (induction c)
  case Nil
  show ?case by simp
next
  case (Cons x c)
  obtain a n where x: "x = (a, n)" by (cases x)
  show ?case unfolding x using Cons.IH by (cases "k = a") simp_all
qed

lemma map_of_increment:
  "map_of (increment k c) k' =
     (if k' = k then Some (case map_of c k of None \<Rightarrow> 1 | Some n \<Rightarrow> n + 1) else map_of c k')"
  by (induction c) auto

lemma distinct_increment: "distinct (map fst c) \<Longrightarrow> distinct (map fst (increment k c))"
  by (simp add: keys_increment)

lemma distinct_fold_increment:
  "distinct (map fst c) \<Longrightarrow> distinct (map fst (fold increment ks c))"
  by (induction ks arbitrary: c) (auto simp: distinct_increment)

lemma set_keys_fold_increment:
  "fst ` set (fold increment ks c) = fst ` set c \<union> set ks"
  by (induction ks arbitrary: c) (simp_all add: set_keys_increment)

lemma map_of_fold_increment:
  "map_of (fold increment ks c) k =
     (case map_of c k of
        None \<Rightarrow> (if k \<in> set ks then Some (count_list ks k) else None)
      | Some n \<Rightarrow> Some (n + count_list ks k))"
  by (induction ks arbitrary: c) (auto simp: map_of_increment split: option.splits)

lemma map_of_tally:
  "map_of (fold increment ks []) k = (if k \<in> set ks then Some (count_list ks k) else None)"
  by (simp add: map_of_fold_increment)

lemma keys_fold_snoc:
  "map fst (fold increment (ks @ [k]) []) =
     (if k \<in> set ks then map fst (fold increment ks [])
      else map fst (fold increment ks []) @ [k])"
  using set_keys_fold_increment [of ks "[]"] by (simp add: keys_increment)

lemma first_seen_before_snoc:
  "first_seen_before ks a b \<Longrightarrow> first_seen_before (ks @ [k]) a b"
  by (auto simp: first_seen_before_def takeWhile_append1 dest: set_takeWhileD)

lemma keys_order:
  "map fst (fold increment ks []) = A @ a # B \<Longrightarrow> b \<in> set B \<Longrightarrow> first_seen_before ks a b"
proof (induction ks arbitrary: B rule: rev_induct)
  case Nil
  then show ?case by simp
next
  case (snoc k ks)
  show ?case
  proof (cases "k \<in> set ks")
    case True
    with snoc.prems have "map fst (fold increment ks []) = A @ a # B"
      by (simp only: keys_fold_snoc if_True)
    from snoc.IH [OF this snoc.prems(2)] show ?thesis by (rule first_seen_before_snoc)
  next
    case False
    with snoc.prems have eq: "map fst (fold increment ks []) @ [k] = A @ a # B"
      by (simp only: keys_fold_snoc if_False)
    from snoc.prems(2) have "B \<noteq> []" by auto
    then obtain B' x where B: "B = B' @ [x]" by (metis rev_exhaust)
    with eq have F: "map fst (fold increment ks []) = A @ a # B'" and x: "x = k" by auto
    show ?thesis
    proof (cases "b \<in> set B'")
      case True
      from snoc.IH [OF F True] show ?thesis by (rule first_seen_before_snoc)
    next
      case False
      with snoc.prems(2) B x have b: "b = k" by auto
      have "a \<in> set (map fst (fold increment ks []))" using F by simp
      then have a: "a \<in> set ks" using set_keys_fold_increment [of ks "[]"] by simp
      with \<open>k \<notin> set ks\<close> b have "a \<noteq> b" by auto
      moreover have "b \<notin> set (takeWhile (\<lambda>k. k \<noteq> a) (ks @ [k]))"
        using a b \<open>k \<notin> set ks\<close> by (auto simp: takeWhile_append1 dest: set_takeWhileD)
      ultimately show ?thesis using a by (simp add: first_seen_before_def)
    qed
  qed
qed

lemma filter_split:
  "filter P c = X @ x # Y \<Longrightarrow> \<exists>A B. c = A @ x # B \<and> set Y \<subseteq> set B"
proof (induction c arbitrary: X)
  case Nil
  then show ?case by simp
next
  case (Cons a c)
  show ?case
  proof (cases "P a")
    case False
    with Cons.prems have "filter P c = X @ x # Y" by simp
    from Cons.IH [OF this] obtain A B where "c = A @ x # B" "set Y \<subseteq> set B" by blast
    then have "a # c = (a # A) @ x # B \<and> set Y \<subseteq> set B" by simp
    then show ?thesis by blast
  next
    case True
    with Cons.prems have eq: "a # filter P c = X @ x # Y" by simp
    show ?thesis
    proof (cases X)
      case Nil
      with eq have "a = x" "Y = filter P c" by simp_all
      then have "a # c = [] @ x # c \<and> set Y \<subseteq> set c" by auto
      then show ?thesis by blast
    next
      case (Cons a' X')
      with eq have "filter P c = X' @ x # Y" by simp
      from Cons.IH [OF this] obtain A B where "c = A @ x # B" "set Y \<subseteq> set B" by blast
      then have "a # c = (a # A) @ x # B \<and> set Y \<subseteq> set B" by simp
      then show ?thesis by blast
    qed
  qed
qed

lemma sort_key_stable_pair:
  fixes f :: "'a \<Rightarrow> int"
  assumes "i < j" "j < length (sort_key f c)"
    and "f (sort_key f c ! i) = f (sort_key f c ! j)"
  shows "\<exists>A B. c = A @ sort_key f c ! i # B \<and> sort_key f c ! j \<in> set B"
proof -
  let ?S = "sort_key f c"
  let ?x = "?S ! i" and ?y = "?S ! j"
  let ?P = "\<lambda>e. f e = f ?x"
  from assms have i: "i < length ?S" by simp
  have S: "?S = take i ?S @ ?x # drop (Suc i) ?S" using i by (rule id_take_nth_drop)
  have "?y = drop (Suc i) ?S ! (j - Suc i)" using assms by simp
  moreover have "j - Suc i < length (drop (Suc i) ?S)" using assms by simp
  ultimately have y: "?y \<in> set (drop (Suc i) ?S)" by (metis nth_mem)
  have "filter ?P ?S = filter ?P (take i ?S) @ ?x # filter ?P (drop (Suc i) ?S)"
    by (subst S) simp
  moreover have "filter ?P ?S = filter ?P c" by (rule sort_key_stable)
  ultimately have "filter ?P c = filter ?P (take i ?S) @ ?x # filter ?P (drop (Suc i) ?S)"
    by simp
  from filter_split [OF this] obtain A B where
    c: "c = A @ ?x # B" and sub: "set (filter ?P (drop (Suc i) ?S)) \<subseteq> set B" by blast
  from y assms(3) have "?y \<in> set (filter ?P (drop (Suc i) ?S))" by simp
  with sub c show ?thesis by blast
qed

lemma tally_entry:
  assumes "(k, n) \<in> set (fold increment ks [])"
  shows "n = count_list ks k \<and> 0 < n"
proof -
  have d: "distinct (map fst (fold increment ks []))" by (simp add: distinct_fold_increment)
  have "map_of (fold increment ks []) k = Some n" using d assms by (rule map_of_is_SomeI)
  then have "k \<in> set ks" "n = count_list ks k"
    by (auto simp: map_of_tally split: if_splits)
  then show ?thesis by (simp add: count_list_0_iff Suc_le_eq[symmetric] not_less_eq_eq[symmetric] neq0_conv[symmetric])
qed

lemma ranked_sort_tally:
  "ranked ks (sort_key (\<lambda>item. - int (snd item)) (fold increment ks []))"
proof -
  let ?f = "\<lambda>item::'a \<times> nat. - int (snd item)"
  let ?c = "fold increment ks []"
  let ?S = "sort_key ?f ?c"
  have entries: "\<forall>i < length ?S. snd (?S ! i) = count_list ks (fst (?S ! i)) \<and> 0 < snd (?S ! i)"
  proof (intro allI impI)
    fix i assume "i < length ?S"
    then have "?S ! i \<in> set ?S" by (rule nth_mem)
    then have "(fst (?S ! i), snd (?S ! i)) \<in> set ?c" by simp
    then show "snd (?S ! i) = count_list ks (fst (?S ! i)) \<and> 0 < snd (?S ! i)"
      by (rule tally_entry)
  qed
  have pairs: "\<forall>i j. i < j \<and> j < length ?S \<longrightarrow>
           snd (?S ! j) < snd (?S ! i)
           \<or> (snd (?S ! j) = snd (?S ! i) \<and> first_seen_before ks (fst (?S ! i)) (fst (?S ! j)))"
  proof (intro allI impI)
    fix i j assume ij: "i < j \<and> j < length ?S"
    have "sorted (map ?f ?S)" by (rule sorted_sort_key)
    then have "map ?f ?S ! i \<le> map ?f ?S ! j"
      using ij by (intro sorted_nth_mono) simp_all
    then have le: "snd (?S ! j) \<le> snd (?S ! i)" using ij by simp
    show "snd (?S ! j) < snd (?S ! i)
           \<or> (snd (?S ! j) = snd (?S ! i) \<and> first_seen_before ks (fst (?S ! i)) (fst (?S ! j)))"
    proof (cases "snd (?S ! j) = snd (?S ! i)")
      case False
      with le show ?thesis by simp
    next
      case True
      then have "?f (?S ! i) = ?f (?S ! j)" by simp
      from sort_key_stable_pair [of i j ?f ?c, OF _ _ this] ij
      obtain A B where c: "?c = A @ ?S ! i # B" and y: "?S ! j \<in> set B" by blast
      have "map fst ?c = map fst (A @ ?S ! i # B)" using c by (rule arg_cong)
      then have "map fst ?c = map fst A @ fst (?S ! i) # map fst B" by simp
      moreover from y have "fst (?S ! j) \<in> set (map fst B)" by simp
      ultimately have "first_seen_before ks (fst (?S ! i)) (fst (?S ! j))" by (rule keys_order)
      with True show ?thesis by simp
    qed
  qed
  from entries pairs show ?thesis unfolding ranked_def by blast
qed

lemma ranked_take:
  assumes "ranked ks tab"
  shows "ranked ks (take n tab)"
proof -
  from assms have e: "\<And>i. i < length tab \<Longrightarrow>
      snd (tab ! i) = count_list ks (fst (tab ! i)) \<and> 0 < snd (tab ! i)"
    and p: "\<And>i j. i < j \<Longrightarrow> j < length tab \<Longrightarrow>
           snd (tab ! j) < snd (tab ! i)
           \<or> (snd (tab ! j) = snd (tab ! i)
               \<and> first_seen_before ks (fst (tab ! i)) (fst (tab ! j)))"
    unfolding ranked_def by blast+
  have A: "\<forall>i < length (take n tab).
      snd (take n tab ! i) = count_list ks (fst (take n tab ! i)) \<and> 0 < snd (take n tab ! i)"
  proof (intro allI impI)
    fix i assume "i < length (take n tab)"
    then have "take n tab ! i = tab ! i" "i < length tab" by simp_all
    with e [of i]
    show "snd (take n tab ! i) = count_list ks (fst (take n tab ! i)) \<and> 0 < snd (take n tab ! i)"
      by simp
  qed
  have B: "\<forall>i j. i < j \<and> j < length (take n tab) \<longrightarrow>
           snd (take n tab ! j) < snd (take n tab ! i)
           \<or> (snd (take n tab ! j) = snd (take n tab ! i)
               \<and> first_seen_before ks (fst (take n tab ! i)) (fst (take n tab ! j)))"
  proof (intro allI impI)
    fix i j assume ij: "i < j \<and> j < length (take n tab)"
    then have "take n tab ! i = tab ! i" "take n tab ! j = tab ! j" "j < length tab" "i < j"
      by simp_all
    with p [of i j]
    show "snd (take n tab ! j) < snd (take n tab ! i)
           \<or> (snd (take n tab ! j) = snd (take n tab ! i)
               \<and> first_seen_before ks (fst (take n tab ! i)) (fst (take n tab ! j)))"
      by simp
  qed
  from A B show ?thesis unfolding ranked_def by (rule conjI)
qed

lemma ranked_most_common: "ranked ks (most_common n (fold increment ks []))"
  unfolding most_common_def by (rule ranked_take) (rule ranked_sort_tally)

lemma length_most_common: "length (most_common n c) \<le> n"
  by (simp add: most_common_def)

lemma most_common_prefix:
  "most_common n c = take n (most_common (length c) c)"
  by (simp add: most_common_def)

lemma set_most_common_full: "set (most_common (length c) c) = set c"
  by (simp add: most_common_def)

section \<open>The aggregator\<close>

lemma top_view_most_common: "top_view n ks (most_common n (fold increment ks []))"
proof -
  let ?full = "most_common (length (fold increment ks [])) (fold increment ks [])"
  have "most_common n (fold increment ks []) = take n ?full" by (rule most_common_prefix)
  moreover have "ranked ks ?full" by (rule ranked_most_common)
  moreover have "distinct (map fst ?full)"
    using distinct_fold_increment [of "[]" ks]
    by (simp add: most_common_def distinct_map)
  moreover have "fst ` set ?full = set ks"
    using set_keys_fold_increment [of ks "[]"] by (simp add: set_most_common_full)
  ultimately show ?thesis unfolding top_view_def by blast
qed

lemma count_companies_keys:
  "count_companies jobs c = fold increment (company_keys jobs) c"
  by (induction jobs arbitrary: c) (simp_all add: company_keys_def Let_def)

lemma count_locations_keys:
  "count_locations jobs c = fold increment (location_keys jobs) c"
  by (induction jobs arbitrary: c) (simp_all add: location_keys_def Let_def)

lemma count_times_keys:
  "count_times jobs c = fold increment (time_keys jobs) c"
  by (induction jobs arbitrary: c) (simp_all add: time_keys_def Let_def)

lemma count_keywords_keys:
  "count_keywords title kws c =
     fold increment (map Str (filter (\<lambda>keyword. contains keyword title) kws)) c"
  by (induction kws arbitrary: c) simp_all

lemma count_titles_keys:
  "count_titles jobs c =
     (if list_ex (\<lambda>j. j ''title'' = Some NoneVal) jobs then Inl AttributeError
      else Inr (fold increment (keyword_keys jobs) c))"
proof (induction jobs arbitrary: c)
  case Nil
  show ?case by (simp add: keyword_keys_def)
next
  case (Cons j jobs)
  show ?case
  proof (cases "j ''title''")
    case None
    then show ?thesis
      using Cons.IH by (simp add: job_get_def keyword_keys_def title_words_def text_eval)
  next
    case (Some v)
    show ?thesis
    proof (cases v)
      case NoneVal
      with Some show ?thesis by (simp add: job_get_def)
    next
      case (Str t)
      with Some show ?thesis
        using Cons.IH
        by (simp add: job_get_def keyword_keys_def title_words_def Let_def count_keywords_keys)
    qed
  qed
qed

lemma analyze_job_data_Inr:
  assumes "analyze_job_data jobs now = Inr a" and "jobs \<noteq> []"
  shows "a = [''total_jobs'' \<mapsto> AInt (length jobs),
              ''extraction_date'' \<mapsto> AStr now,
              ''companies'' \<mapsto> ATable (most_common 10 (fold increment (company_keys jobs) [])),
              ''locations'' \<mapsto> ATable (most_common 10 (fold increment (location_keys jobs) [])),
              ''posting_times'' \<mapsto> ATable (most_common 10 (fold increment (time_keys jobs) [])),
              ''title_keywords'' \<mapsto> ATable (most_common 10 (fold increment (keyword_keys jobs) [])),
              ''unique_companies'' \<mapsto> AInt (length (fold increment (company_keys jobs) [])),
              ''unique_locations'' \<mapsto> AInt (length (fold increment (location_keys jobs) []))]"
  using assms
  by (auto simp: analyze_job_data_def Let_def count_companies_keys count_locations_keys
        count_times_keys count_titles_keys split: if_splits)

lemma analyze_job_data_total:
  "analyze_job_data jobs now = Inl e \<longleftrightarrow>
     jobs \<noteq> [] \<and> list_ex (\<lambda>j. j ''title'' = Some NoneVal) jobs"
  by (cases e) (auto simp: analyze_job_data_def Let_def count_titles_keys)

lemmas analyze_eval = analyze_job_data_def Let_def job_get_def most_common_def keyword_list_def
  text_eval

text \<open>
  C9. On the empty sequence the aggregator returns the empty dictionary: it has no key at
  all, in particular none of \<open>total_jobs\<close>, the four tables and the two unique counts.
\<close>

theorem analyze_job_data_empty:
  "analyze_job_data [] now = Inr Map.empty
   \<and> (\<exists>a. analyze_job_data [] now = Inr a \<and> dom a = {}
          \<and> a ''total_jobs'' = None \<and> a ''companies'' = None \<and> a ''locations'' = None
          \<and> a ''posting_times'' = None \<and> a ''title_keywords'' = None
          \<and> a ''unique_companies'' = None \<and> a ''unique_locations'' = None)"
  by (simp add: analyze_job_data_def)

theorem analyze_job_data_empty_witness:
  "analyze_job_data [] ''2025-07-01 12:00:00'' = Inr Map.empty"
  using analyze_job_data_empty [of "''2025-07-01 12:00:00''"] by simp

text \<open>
  The dictionary holds the clock reading under \<open>extraction_date\<close>, so two runs on the
  same records at different times differ.
\<close>

lemma sample_analysis_date:
  "map_sum id (\<lambda>a. a ''extraction_date'') (analyze_job_data [sample_job] now) = Inr (Some (AStr now))"
  by (simp add: analyze_eval sample_job_def)

theorem analyze_job_data_clock_counterexample:
  "analyze_job_data [sample_job] ''2025-07-01 12:00:00''
     \<noteq> analyze_job_data [sample_job] ''2025-07-01 12:00:01''"
proof
  assume "analyze_job_data [sample_job] ''2025-07-01 12:00:00''
     = analyze_job_data [sample_job] ''2025-07-01 12:00:01''"
  then have "map_sum id (\<lambda>a. a ''extraction_date'') (analyze_job_data [sample_job] ''2025-07-01 12:00:00'')
     = map_sum id (\<lambda>a. a ''extraction_date'') (analyze_job_data [sample_job] ''2025-07-01 12:00:01'')"
    by simp
  then show False unfolding sample_analysis_date by simp
qed

text \<open>
  C8, as the code has it: two runs on the same record sequence, at any two clock readings,
  raise alike or return dictionaries that agree on every key other than
  \<open>extraction_date\<close>; and \<open>extraction_date\<close> holds the clock reading of the run.
\<close>

theorem analyze_job_data_deterministic_but_clock:
  "map_sum id (\<lambda>a. a(''extraction_date'' := None)) (analyze_job_data jobs now1)
     = map_sum id (\<lambda>a. a(''extraction_date'' := None)) (analyze_job_data jobs now2)
   \<and> (\<forall>a. jobs \<noteq> [] \<and> analyze_job_data jobs now1 = Inr a
          \<longrightarrow> a ''extraction_date'' = Some (AStr now1))"
  by (auto simp: analyze_job_data_def Let_def fun_eq_iff split: sum.splits)

theorem analyze_job_data_deterministic_but_clock_witness:
  "map_sum id (\<lambda>a. a(''extraction_date'' := None))
       (analyze_job_data [sample_job] ''2025-07-01 12:00:00'')
     = map_sum id (\<lambda>a. a(''extraction_date'' := None))
       (analyze_job_data [sample_job] ''2025-07-01 12:00:01'')
   \<and> map_sum id (\<lambda>a. a ''extraction_date'')
       (analyze_job_data [sample_job] ''2025-07-01 12:00:00'')
     = Inr (Some (AStr ''2025-07-01 12:00:00''))"
  using analyze_job_data_deterministic_but_clock
          [of "[sample_job]" "''2025-07-01 12:00:00''" "''2025-07-01 12:00:01''"]
        sample_analysis_date [of "''2025-07-01 12:00:00''"]
  by blast


lemma count_list_filter_map:
  "count_list (filter P (map g xs)) v = (if P v then length (filter (\<lambda>x. g x = v) xs) else 0)"
  by (induction xs) auto

lemma length_tally: "length (fold increment ks []) = card (set ks)"
proof -
  have "length (fold increment ks []) = length (map fst (fold increment ks []))" by simp
  also have "\<dots> = card (set (map fst (fold increment ks [])))"
    using distinct_fold_increment [of "[]" ks] by (simp add: distinct_card del: length_map set_map)
  also have "\<dots> = card (set ks)"
    using set_keys_fold_increment [of ks "[]"] by simp
  finally show ?thesis .
qed

lemma map_of_tally_filter_map:
  "map_of (fold increment (filter P (map g xs)) []) v =
     (if P v \<and> (\<exists>x \<in> set xs. g x = v)
      then Some (length (filter (\<lambda>x. g x = v) xs)) else None)"
  by (auto simp: map_of_tally count_list_filter_map)

lemma set_filter_map: "set (filter P (map g xs)) = {v \<in> g ` set xs. P v}"
  by auto

lemma set_most_common_subset: "set (most_common n c) \<subseteq> set c"
  using set_take_subset [of n "sort_key (\<lambda>item. - int (snd item)) c"]
  by (simp add: most_common_def)

text \<open>
  C5, as the code has it. For every non-empty record sequence whose titles are strings or
  absent, the aggregator returns a dictionary in which: the company table is the top 10
  of a full table that gives every company value other than \<open>Company not found\<close> the
  number of records carrying it (a record without the key counts under \<open>Unknown\<close>) and
  has no entry for the sentinel; likewise the location table with \<open>Location not found\<close>;
  the posted-time table leaves out only the falsy values (the empty string and \<open>None\<close>)
  and counts a record without \<open>posted_time\<close> under \<open>Unknown\<close>; and
  \<open>unique_companies\<close> and \<open>unique_locations\<close> are the lengths of the full company and
  location tables, that is the numbers of distinct counted values.
\<close>

theorem analyze_job_data_counts:
  assumes "jobs \<noteq> []" and "\<not> list_ex (\<lambda>j. j ''title'' = Some NoneVal) jobs"
  shows "\<exists>a. analyze_job_data jobs now = Inr a
     \<and> a ''companies'' = Some (ATable (most_common 10 (count_companies jobs [])))
     \<and> a ''locations'' = Some (ATable (most_common 10 (count_locations jobs [])))
     \<and> a ''posting_times'' = Some (ATable (most_common 10 (count_times jobs [])))
     \<and> a ''unique_companies'' = Some (AInt (length (count_companies jobs [])))
     \<and> a ''unique_locations'' = Some (AInt (length (count_locations jobs [])))
     \<and> (\<forall>v. map_of (count_companies jobs []) v =
           (if v \<noteq> Str ''Company not found''
               \<and> (\<exists>j \<in> set jobs. job_get j ''company'' (Str ''Unknown'') = v)
            then Some (length (filter (\<lambda>j. job_get j ''company'' (Str ''Unknown'') = v) jobs))
            else None))
     \<and> (\<forall>v. map_of (count_locations jobs []) v =
           (if v \<noteq> Str ''Location not found''
               \<and> (\<exists>j \<in> set jobs. job_get j ''location'' (Str ''Unknown'') = v)
            then Some (length (filter (\<lambda>j. job_get j ''location'' (Str ''Unknown'') = v) jobs))
            else None))
     \<and> (\<forall>v. map_of (count_times jobs []) v =
           (if truthy (Some v)
               \<and> (\<exists>j \<in> set jobs. job_get j ''posted_time'' (Str ''Unknown'') = v)
            then Some (length (filter (\<lambda>j. job_get j ''posted_time'' (Str ''Unknown'') = v) jobs))
            else None))
     \<and> distinct (map fst (count_companies jobs []))
     \<and> distinct (map fst (count_locations jobs []))
     \<and> length (count_companies jobs []) =
         card {v \<in> (\<lambda>j. job_get j ''company'' (Str ''Unknown'')) ` set jobs.
                 v \<noteq> Str ''Company not found''}
     \<and> length (count_locations jobs []) =
         card {v \<in> (\<lambda>j. job_get j ''location'' (Str ''Unknown'')) ` set jobs.
                 v \<noteq> Str ''Location not found''}
     \<and> set (most_common 10 (count_companies jobs [])) \<subseteq> set (count_companies jobs [])
     \<and> set (most_common 10 (count_locations jobs [])) \<subseteq> set (count_locations jobs [])
     \<and> set (most_common 10 (count_times jobs [])) \<subseteq> set (count_times jobs [])"
proof -
  from assms obtain a where a: "analyze_job_data jobs now = Inr a"
    using analyze_job_data_total [of jobs now AttributeError]
    by (cases "analyze_job_data jobs now") (auto, metis py_error.exhaust)
  note tab = analyze_job_data_Inr [OF a assms(1)]
  have c1: "a ''companies'' = Some (ATable (most_common 10 (count_companies jobs [])))"
    and c2: "a ''locations'' = Some (ATable (most_common 10 (count_locations jobs [])))"
    and c3: "a ''posting_times'' = Some (ATable (most_common 10 (count_times jobs [])))"
    and c4: "a ''unique_companies'' = Some (AInt (length (count_companies jobs [])))"
    and c5: "a ''unique_locations'' = Some (AInt (length (count_locations jobs [])))"
    by (simp_all add: tab count_companies_keys count_locations_keys count_times_keys)
  have m1: "\<forall>v. map_of (count_companies jobs []) v =
           (if v \<noteq> Str ''Company not found''
               \<and> (\<exists>j \<in> set jobs. job_get j ''company'' (Str ''Unknown'') = v)
            then Some (length (filter (\<lambda>j. job_get j ''company'' (Str ''Unknown'') = v) jobs))
            else None)"
    unfolding count_companies_keys company_keys_def by (simp add: map_of_tally_filter_map)
  have m2: "\<forall>v. map_of (count_locations jobs []) v =
           (if v \<noteq> Str ''Location not found''
               \<and> (\<exists>j \<in> set jobs. job_get j ''location'' (Str ''Unknown'') = v)
            then Some (length (filter (\<lambda>j. job_get j ''location'' (Str ''Unknown'') = v) jobs))
            else None)"
    unfolding count_locations_keys location_keys_def by (simp add: map_of_tally_filter_map)
  have m3: "\<forall>v. map_of (count_times jobs []) v =
           (if truthy (Some v)
               \<and> (\<exists>j \<in> set jobs. job_get j ''posted_time'' (Str ''Unknown'') = v)
            then Some (length (filter (\<lambda>j. job_get j ''posted_time'' (Str ''Unknown'') = v) jobs))
            else None)"
    unfolding count_times_keys time_keys_def by (simp add: map_of_tally_filter_map)
  have d1: "distinct (map fst (count_companies jobs []))"
    and d2: "distinct (map fst (count_locations jobs []))"
    unfolding count_companies_keys count_locations_keys
    by (simp_all add: distinct_fold_increment)
  have u1: "length (count_companies jobs []) =
         card {v \<in> (\<lambda>j. job_get j ''company'' (Str ''Unknown'')) ` set jobs.
                 v \<noteq> Str ''Company not found''}"
    unfolding count_companies_keys company_keys_def length_tally set_filter_map ..
  have u2: "length (count_locations jobs []) =
         card {v \<in> (\<lambda>j. job_get j ''location'' (Str ''Unknown'')) ` set jobs.
                 v \<noteq> Str ''Location not found''}"
    unfolding count_locations_keys location_keys_def length_tally set_filter_map ..
  note s = set_most_common_subset [of 10 "count_companies jobs []"]
    set_most_common_subset [of 10 "count_locations jobs []"]
    set_most_common_subset [of 10 "count_times jobs []"]
  from a c1 c2 c3 c4 c5 m1 m2 m3 d1 d2 u1 u2 s show ?thesis by blast
qed

text \<open>
  A record without \<open>posted_time\<close> is counted in the posted-time table, under
  \<open>Unknown\<close>; and a posted time that reads "not found" is counted like any other text.
\<close>

theorem analyze_job_data_posted_time_counterexample:
  "map_sum id (\<lambda>a. a ''posting_times'')
       (analyze_job_data [sample_job] ''2025-07-01 12:00:00'')
     = Inr (Some (ATable [(Str ''Unknown'', 1)]))
   \<and> map_sum id (\<lambda>a. a ''posting_times'')
       (analyze_job_data [sample_job(''posted_time'' \<mapsto> Str ''Posted time not found'')]
          ''2025-07-01 12:00:00'')
     = Inr (Some (ATable [(Str ''Posted time not found'', 1)]))"
  by (simp add: sample_job_def analyze_eval)

lemma sentinel_jobs_analysis:
  "map_sum id (\<lambda>a. (a ''companies'', a ''unique_companies'', a ''locations'',
                     a ''unique_locations'', a ''posting_times''))
       (analyze_job_data sentinel_jobs now)
     = Inr (Some (ATable [(Str ''Acme'', 2)]), Some (AInt 1),
            Some (ATable [(Str ''Pune'', 2)]), Some (AInt 1),
            Some (ATable [(Str ''Unknown'', 2)]))"
  by (simp add: sentinel_jobs_def sample_job_def analyze_eval)

lemma sentinel_jobs_ok:
  "sentinel_jobs \<noteq> []" "\<not> list_ex (\<lambda>j. j ''title'' = Some NoneVal) sentinel_jobs"
  by (simp_all add: sentinel_jobs_def sample_job_def)

theorem analyze_job_data_counts_witness:
  "map_of (count_companies sentinel_jobs []) (Str ''Company not found'') = None
   \<and> map_of (count_companies sentinel_jobs []) (Str ''Acme'') = Some 2
   \<and> map_of (count_locations sentinel_jobs []) (Str ''Location not found'') = None
   \<and> map_of (count_times sentinel_jobs []) (Str '''') = None
   \<and> map_of (count_times sentinel_jobs []) (Str ''Unknown'') = Some 2
   \<and> map_sum id (\<lambda>a. (a ''companies'', a ''unique_companies'', a ''locations'',
                     a ''unique_locations'', a ''posting_times''))
       (analyze_job_data sentinel_jobs ''2025-07-01 12:00:00'')
     = Inr (Some (ATable [(Str ''Acme'', 2)]), Some (AInt 1),
            Some (ATable [(Str ''Pune'', 2)]), Some (AInt 1),
            Some (ATable [(Str ''Unknown'', 2)]))"
proof -
  from analyze_job_data_counts [OF sentinel_jobs_ok, of "''2025-07-01 12:00:00''"]
  have c: "\<And>v. map_of (count_companies sentinel_jobs []) v =
           (if v \<noteq> Str ''Company not found''
               \<and> (\<exists>j \<in> set sentinel_jobs. job_get j ''company'' (Str ''Unknown'') = v)
            then Some (length (filter (\<lambda>j. job_get j ''company'' (Str ''Unknown'') = v) sentinel_jobs))
            else None)"
    and l: "\<And>v. map_of (count_locations sentinel_jobs []) v =
           (if v \<noteq> Str ''Location not found''
               \<and> (\<exists>j \<in> set sentinel_jobs. job_get j ''location'' (Str ''Unknown'') = v)
            then Some (length (filter (\<lambda>j. job_get j ''location'' (Str ''Unknown'') = v) sentinel_jobs))
            else None)"
    and t: "\<And>v. map_of (count_times sentinel_jobs []) v =
           (if truthy (Some v)
               \<and> (\<exists>j \<in> set sentinel_jobs. job_get j ''posted_time'' (Str ''Unknown'') = v)
            then Some (length (filter (\<lambda>j. job_get j ''posted_time'' (Str ''Unknown'') = v) sentinel_jobs))
            else None)"
    by blast+
  have "map_of (count_companies sentinel_jobs []) (Str ''Company not found'') = None"
    by (subst c) simp
  moreover have "map_of (count_companies sentinel_jobs []) (Str ''Acme'') = Some 2"
    by (subst c) (simp add: sentinel_jobs_def sample_job_def job_get_def)
  moreover have "map_of (count_locations sentinel_jobs []) (Str ''Location not found'') = None"
    by (subst l) simp
  moreover have "map_of (count_times sentinel_jobs []) (Str '''') = None"
    by (subst t) simp
  moreover have "map_of (count_times sentinel_jobs []) (Str ''Unknown'') = Some 2"
    by (subst t) (simp add: sentinel_jobs_def sample_job_def job_get_def)
  ultimately show ?thesis
    using sentinel_jobs_analysis [of "''2025-07-01 12:00:00''"] by blast
qed

lemma abc_companies:
  "map_sum id (\<lambda>a. a ''companies'') (analyze_job_data abc_jobs now)
     = Inr (Some (ATable [(Str ''A'', 3), (Str ''B'', 2), (Str ''C'', 1)]))"
  by (simp add: abc_jobs_def analyze_eval)

text \<open>
  C6. For every non-empty record sequence whose titles are strings or absent, each of the
  four tables of the result (companies, locations, posting times, title keywords) has at
  most 10 entries and is ranked: every entry carries the number of times its key was
  counted, an earlier entry has a larger count than a later one or, at equal counts, a
  key that was first counted earlier in the input; and it is the first 10 entries of such
  a ranking of all counted keys. For records with the companies A, B, A, C, B, A the
  company table is exactly A: 3, B: 2, C: 1.
\<close>

theorem analyze_job_data_top_views:
  assumes "jobs \<noteq> []" and "\<not> list_ex (\<lambda>j. j ''title'' = Some NoneVal) jobs"
  shows "(\<exists>a cs ls ts ws. analyze_job_data jobs now = Inr a
       \<and> a ''companies'' = Some (ATable cs) \<and> a ''locations'' = Some (ATable ls)
       \<and> a ''posting_times'' = Some (ATable ts) \<and> a ''title_keywords'' = Some (ATable ws)
       \<and> length cs \<le> 10 \<and> length ls \<le> 10 \<and> length ts \<le> 10 \<and> length ws \<le> 10
       \<and> ranked (company_keys jobs) cs \<and> top_view 10 (company_keys jobs) cs
       \<and> ranked (location_keys jobs) ls \<and> top_view 10 (location_keys jobs) ls
       \<and> ranked (time_keys jobs) ts \<and> top_view 10 (time_keys jobs) ts
       \<and> ranked (keyword_keys jobs) ws \<and> top_view 10 (keyword_keys jobs) ws)
     \<and> map_sum id (\<lambda>a. a ''companies'') (analyze_job_data abc_jobs now)
         = Inr (Some (ATable [(Str ''A'', 3), (Str ''B'', 2), (Str ''C'', 1)]))"
proof -
  from assms obtain a where a: "analyze_job_data jobs now = Inr a"
    using analyze_job_data_total [of jobs now AttributeError]
    by (cases "analyze_job_data jobs now") (auto, metis py_error.exhaust)
  note tab = analyze_job_data_Inr [OF a assms(1)]
  let ?cs = "most_common 10 (fold increment (company_keys jobs) [])"
  let ?ls = "most_common 10 (fold increment (location_keys jobs) [])"
  let ?ts = "most_common 10 (fold increment (time_keys jobs) [])"
  let ?ws = "most_common 10 (fold increment (keyword_keys jobs) [])"
  have "a ''companies'' = Some (ATable ?cs)" "a ''locations'' = Some (ATable ?ls)"
    "a ''posting_times'' = Some (ATable ?ts)" "a ''title_keywords'' = Some (ATable ?ws)"
    by (simp_all add: tab)
  with a have "\<exists>a cs ls ts ws. analyze_job_data jobs now = Inr a
       \<and> a ''companies'' = Some (ATable cs) \<and> a ''locations'' = Some (ATable ls)
       \<and> a ''posting_times'' = Some (ATable ts) \<and> a ''title_keywords'' = Some (ATable ws)
       \<and> length cs \<le> 10 \<and> length ls \<le> 10 \<and> length ts \<le> 10 \<and> length ws \<le> 10
       \<and> ranked (company_keys jobs) cs \<and> top_view 10 (company_keys jobs) cs
       \<and> ranked (location_keys jobs) ls \<and> top_view 10 (location_keys jobs) ls
       \<and> ranked (time_keys jobs) ts \<and> top_view 10 (time_keys jobs) ts
       \<and> ranked (keyword_keys jobs) ws \<and> top_view 10 (keyword_keys jobs) ws"
    using length_most_common [of 10] ranked_most_common [of _ 10] top_view_most_common [of 10]
    by blast
  then show ?thesis using abc_companies [of now] by (rule conjI)
qed

lemma abc_jobs_ok:
  "abc_jobs \<noteq> []" "\<not> list_ex (\<lambda>j. j ''title'' = Some NoneVal) abc_jobs"
  by (simp_all add: abc_jobs_def)

theorem analyze_job_data_top_views_witness:
  "ranked (company_keys abc_jobs) [(Str ''A'', 3), (Str ''B'', 2), (Str ''C'', 1)]
   \<and> top_view 10 (company_keys abc_jobs) [(Str ''A'', 3), (Str ''B'', 2), (Str ''C'', 1)]
   \<and> map_sum id (\<lambda>a. a ''companies'') (analyze_job_data abc_jobs ''2025-07-01 12:00:00'')
         = Inr (Some (ATable [(Str ''A'', 3), (Str ''B'', 2), (Str ''C'', 1)]))"
proof -
  from analyze_job_data_top_views [OF abc_jobs_ok, of "''2025-07-01 12:00:00''"]
  obtain a cs where a: "analyze_job_data abc_jobs ''2025-07-01 12:00:00'' = Inr a"
    and cs: "a ''companies'' = Some (ATable cs)"
    and r: "ranked (company_keys abc_jobs) cs" "top_view 10 (company_keys abc_jobs) cs"
    and ex: "map_sum id (\<lambda>a. a ''companies'') (analyze_job_data abc_jobs ''2025-07-01 12:00:00'')
         = Inr (Some (ATable [(Str ''A'', 3), (Str ''B'', 2), (Str ''C'', 1)]))"
    by blast
  from ex a cs have "cs = [(Str ''A'', 3), (Str ''B'', 2), (Str ''C'', 1)]" by simp
  with r ex show ?thesis by blast
qed

section \<open>Title keywords\<close>

lemma three_jobs_analysis:
  "map_sum id (\<lambda>a. (a ''title_keywords'', a ''companies'', a ''unique_companies''))
       (analyze_job_data three_jobs now)
     = Inr (Some (ATable [(Str ''engineer'', 2), (Str ''senior'', 1), (Str ''analyst'', 1),
                          (Str ''junior'', 1)]),
            Some (ATable [(Str ''Acme'', 2), (Str ''Beta'', 1)]),
            Some (AInt 2))"
  by (simp add: three_jobs_def analyze_eval)

lemma distinct_keyword_list: "distinct keyword_list"
  by (simp add: keyword_list_def)

lemma length_keyword_list: "length keyword_list = 10"
  by (simp add: keyword_list_def)

lemma distinct_title_words: "distinct (title_words j)"
  by (simp add: title_words_def distinct_keyword_list split: pyval.splits)

lemma set_title_words_subset: "set (title_words j) \<subseteq> set keyword_list"
  by (auto simp: title_words_def split: pyval.splits if_splits)

lemma title_words_iff:
  "k \<in> set (title_words j) \<longleftrightarrow>
     k \<in> set keyword_list
     \<and> (\<exists>t. job_get j ''title'' (Str []) = Str t \<and> lower t \<noteq> []
            \<and> lower t \<noteq> ''title not found'' \<and> contains k (lower t))"
  by (cases "job_get j ''title'' (Str [])") (auto simp: title_words_def)

lemma count_list_distinct: "distinct ws \<Longrightarrow> count_list ws k = (if k \<in> set ws then 1 else 0)"
  by (induction ws) auto

lemma count_title_words:
  "count_list (map Str (title_words j)) (Str k) = (if k \<in> set (title_words j) then 1 else 0)"
proof -
  have "inj Str" by (simp add: inj_on_def)
  then have "count_list (map Str (title_words j)) (Str k) = count_list (title_words j) k"
    by (rule count_list_map_conv)
  then show ?thesis by (simp add: count_list_distinct distinct_title_words)
qed

lemma count_keyword_keys:
  "count_list (keyword_keys jobs) (Str k) = length (filter (\<lambda>j. k \<in> set (title_words j)) jobs)"
proof (induction jobs)
  case Nil
  show ?case by (simp add: keyword_keys_def)
next
  case (Cons j jobs)
  have "keyword_keys (j # jobs) = map Str (title_words j) @ keyword_keys jobs"
    by (simp add: keyword_keys_def)
  then show ?case using Cons.IH by (simp add: count_title_words)
qed

lemma set_keyword_keys: "set (keyword_keys jobs) \<subseteq> Str ` set keyword_list"
  using set_title_words_subset by (auto simp: keyword_keys_def)

lemma length_keyword_tally: "length (fold increment (keyword_keys jobs) []) \<le> 10"
proof -
  have "card (set (keyword_keys jobs)) \<le> card (Str ` set keyword_list)"
    by (rule card_mono) (simp_all add: set_keyword_keys)
  also have "\<dots> \<le> card (set keyword_list)" by (rule card_image_le) simp
  also have "\<dots> \<le> length keyword_list" by (rule card_length)
  finally show ?thesis by (simp add: length_tally length_keyword_list)
qed

lemma set_most_common_all: "length c \<le> n \<Longrightarrow> set (most_common n c) = set c"
  by (simp add: most_common_def)

lemma map_of_keyword_tally:
  "map_of (fold increment (keyword_keys jobs) []) (Str k) = Some n \<longleftrightarrow>
     n = length (filter (\<lambda>j. k \<in> set (title_words j)) jobs) \<and> 0 < n"
proof -
  have "Str k \<in> set (keyword_keys jobs) \<longleftrightarrow> 0 < count_list (keyword_keys jobs) (Str k)"
    using count_list_0_iff [of "keyword_keys jobs" "Str k"] by auto
  then show ?thesis by (auto simp: map_of_tally count_keyword_keys)
qed

text \<open>
  C7, as the code has it. The title scan takes each title that is a non-empty string
  other than the title sentinel, lower-cases it, and counts it once under every word of
  the vocabulary (analyst, senior, junior, manager, engineer, developer, specialist, lead,
  principal, director) that it contains; the keyword table of the result holds every word
  counted, with the number of titles containing it. For the titles "Senior ML Engineer",
  "ML Engineer", "Junior Data Analyst" at the companies Acme, Acme, Beta the result has
  the title keywords engineer: 2, senior: 1, analyst: 1, junior: 1, the companies
  Acme: 2, Beta: 1, and 2 unique companies.
\<close>

theorem analyze_job_data_title_keywords:
  assumes "jobs \<noteq> []" and "\<not> list_ex (\<lambda>j. j ''title'' = Some NoneVal) jobs"
  shows "(\<exists>a keyword_counter. analyze_job_data jobs now = Inr a
       \<and> count_titles jobs [] = Inr keyword_counter
       \<and> a ''title_keywords'' = Some (ATable (most_common 10 keyword_counter))
       \<and> set (most_common 10 keyword_counter) = set keyword_counter
       \<and> distinct (map fst keyword_counter)
       \<and> fst ` set keyword_counter \<subseteq> Str ` set keyword_list
       \<and> (\<forall>k n. map_of keyword_counter (Str k) = Some n \<longleftrightarrow>
             n = length (filter (\<lambda>j. k \<in> set (title_words j)) jobs) \<and> 0 < n))
     \<and> (\<forall>j k. k \<in> set (title_words j) \<longleftrightarrow>
           k \<in> set keyword_list
           \<and> (\<exists>t. job_get j ''title'' (Str []) = Str t \<and> lower t \<noteq> []
                  \<and> lower t \<noteq> ''title not found'' \<and> contains k (lower t)))
     \<and> keyword_list = [''analyst'', ''senior'', ''junior'', ''manager'', ''engineer'',
            ''developer'', ''specialist'', ''lead'', ''principal'', ''director'']
     \<and> map_sum id (\<lambda>a. (a ''title_keywords'', a ''companies'', a ''unique_companies''))
          (analyze_job_data three_jobs now)
        = Inr (Some (ATable [(Str ''engineer'', 2), (Str ''senior'', 1), (Str ''analyst'', 1),
                             (Str ''junior'', 1)]),
               Some (ATable [(Str ''Acme'', 2), (Str ''Beta'', 1)]),
               Some (AInt 2))"
proof -
  from assms obtain a where a: "analyze_job_data jobs now = Inr a"
    using analyze_job_data_total [of jobs now AttributeError]
    by (cases "analyze_job_data jobs now") (auto, metis py_error.exhaust)
  note tab = analyze_job_data_Inr [OF a assms(1)]
  let ?kc = "fold increment (keyword_keys jobs) []"
  have kc: "count_titles jobs [] = Inr ?kc" using assms(2) by (simp add: count_titles_keys)
  have t: "a ''title_keywords'' = Some (ATable (most_common 10 ?kc))" by (simp add: tab)
  have s: "set (most_common 10 ?kc) = set ?kc"
    by (rule set_most_common_all) (rule length_keyword_tally)
  have d: "distinct (map fst ?kc)" by (simp add: distinct_fold_increment)
  have f: "fst ` set ?kc \<subseteq> Str ` set keyword_list"
    using set_keys_fold_increment [of "keyword_keys jobs" "[]"] set_keyword_keys [of jobs] by simp
  have m: "\<forall>k n. map_of ?kc (Str k) = Some n \<longleftrightarrow>
             n = length (filter (\<lambda>j. k \<in> set (title_words j)) jobs) \<and> 0 < n"
    by (simp add: map_of_keyword_tally)
  from a kc t s d f m have first: "\<exists>a keyword_counter. analyze_job_data jobs now = Inr a
       \<and> count_titles jobs [] = Inr keyword_counter
       \<and> a ''title_keywords'' = Some (ATable (most_common 10 keyword_counter))
       \<and> set (most_common 10 keyword_counter) = set keyword_counter
       \<and> distinct (map fst keyword_counter)
       \<and> fst ` set keyword_counter \<subseteq> Str ` set keyword_list
       \<and> (\<forall>k n. map_of keyword_counter (Str k) = Some n \<longleftrightarrow>
             n = length (filter (\<lambda>j. k \<in> set (title_words j)) jobs) \<and> 0 < n)"
    by blast
  show ?thesis
    using first title_words_iff keyword_list_def three_jobs_analysis [of now]
    by (intro conjI allI) 
qed

lemma three_jobs_ok:
  "three_jobs \<noteq> []" "\<not> list_ex (\<lambda>j. j ''title'' = Some NoneVal) three_jobs"
  by (simp_all add: three_jobs_def)

theorem analyze_job_data_title_keywords_witness:
  "(\<exists>a keyword_counter. analyze_job_data three_jobs ''2025-07-01 12:00:00'' = Inr a
       \<and> count_titles three_jobs [] = Inr keyword_counter
       \<and> a ''title_keywords'' = Some (ATable (most_common 10 keyword_counter))
       \<and> set (most_common 10 keyword_counter) = set keyword_counter)
   \<and> map_sum id (\<lambda>a. (a ''title_keywords'', a ''companies'', a ''unique_companies''))
          (analyze_job_data three_jobs ''2025-07-01 12:00:00'')
        = Inr (Some (ATable [(Str ''engineer'', 2), (Str ''senior'', 1), (Str ''analyst'', 1),
                             (Str ''junior'', 1)]),
               Some (ATable [(Str ''Acme'', 2), (Str ''Beta'', 1)]),
               Some (AInt 2))"
  using analyze_job_data_title_keywords [OF three_jobs_ok, of "''2025-07-01 12:00:00''"]
  by blast

text \<open>
  On the three records of the scenario the keyword table is not senior: 1, junior: 1:
  it also counts engineer twice and analyst once.
\<close>

theorem analyze_job_data_three_jobs_counterexample:
  "map_sum id (\<lambda>a. a ''title_keywords'') (analyze_job_data three_jobs ''2025-07-01 12:00:00'')
     = Inr (Some (ATable [(Str ''engineer'', 2), (Str ''senior'', 1), (Str ''analyst'', 1),
                          (Str ''junior'', 1)]))
   \<and> map_sum id (\<lambda>a. a ''title_keywords'') (analyze_job_data three_jobs ''2025-07-01 12:00:00'')
     \<noteq> Inr (Some (ATable [(Str ''senior'', 1), (Str ''junior'', 1)]))
   \<and> map_sum id (\<lambda>a. a ''title_keywords'') (analyze_job_data three_jobs ''2025-07-01 12:00:00'')
     \<noteq> Inr (Some (ATable [(Str ''junior'', 1), (Str ''senior'', 1)]))"
proof -
  have "map_sum id (\<lambda>a. a ''title_keywords'') (analyze_job_data three_jobs ''2025-07-01 12:00:00'')
     = map_sum id fst (map_sum id (\<lambda>a. (a ''title_keywords'', a ''companies'', a ''unique_companies''))
          (analyze_job_data three_jobs ''2025-07-01 12:00:00''))"
    by (cases "analyze_job_data three_jobs ''2025-07-01 12:00:00''") simp_all
  then show ?thesis unfolding three_jobs_analysis by simp
qed

section \<open>The listing extractor\<close>

lemma fallback_link_other: "k \<noteq> ''job_link'' \<Longrightarrow> fallback_link c jd k = jd k"
  by (simp add: fallback_link_def split: outcome.splits)

lemma job_link_of_other: "k \<noteq> ''job_link'' \<Longrightarrow> job_link_of c sel el jd k = jd k"
  by (simp add: job_link_of_def fallback_link_other split: outcome.splits)

lemma fallback_link_dom: "dom (fallback_link c jd) \<subseteq> insert ''job_link'' (dom jd)"
  by (auto simp: fallback_link_def split: outcome.splits)

lemma job_link_of_dom: "dom (job_link_of c sel el jd) \<subseteq> insert ''job_link'' (dom jd)"
  using fallback_link_dom [of c jd]
  by (auto simp: job_link_of_def split: outcome.splits if_splits)

lemma title_loop_other:
  "k \<noteq> ''title'' \<Longrightarrow> k \<noteq> ''job_link'' \<Longrightarrow> title_loop c sels jd k = jd k"
  by (induction sels) (simp_all add: job_link_of_other split: outcome.splits)

lemma title_loop_title:
  "title_loop c sels jd ''title'' =
     (case find (\<lambda>sel. \<exists>t. candidate_text c sel = Some t \<and> t \<noteq> []) sels of
        None \<Rightarrow> jd ''title''
      | Some sel \<Rightarrow> Some (Str (the (candidate_text c sel))))"
  by (induction sels)
     (auto simp: candidate_text_def read_text_def job_link_of_other split: outcome.splits)

lemma title_loop_dom:
  "dom (title_loop c sels jd) \<subseteq> insert ''title'' (insert ''job_link'' (dom jd))"
proof (induction sels)
  case Nil
  show ?case by auto
next
  case (Cons sel sels)
  show ?case
    using Cons.IH job_link_of_dom [of c sel _ "jd(''title'' \<mapsto> _)"]
    by (auto split: outcome.splits if_splits) blast+
qed

lemma company_loop_other: "k \<noteq> ''company'' \<Longrightarrow> company_loop c sels jd k = jd k"
  by (induction sels) (simp_all split: outcome.splits)

lemma company_loop_company:
  "company_loop c sels jd ''company'' =
     (case find (\<lambda>sel. \<exists>t. candidate_text c sel = Some t \<and> company_accepts t) sels of
        None \<Rightarrow> jd ''company''
      | Some sel \<Rightarrow> Some (Str (the (candidate_text c sel))))"
  by (induction sels) (auto simp: candidate_text_def read_text_def split: outcome.splits)

lemma location_loop_other: "k \<noteq> ''location'' \<Longrightarrow> location_loop c sels jd k = jd k"
  by (induction sels) (simp_all split: outcome.splits)

lemma location_loop_location:
  "location_loop c sels jd ''location'' =
     (case find (\<lambda>sel. \<exists>t. candidate_text c sel = Some t \<and> location_accepts t) sels of
        None \<Rightarrow> jd ''location''
      | Some sel \<Rightarrow> Some (Str (the (candidate_text c sel))))"
  by (induction sels) (auto simp: candidate_text_def read_text_def split: outcome.splits)

lemma time_loop_other: "k \<noteq> ''posted_time'' \<Longrightarrow> time_loop c sels jd k = jd k"
  by (induction sels) (simp_all split: outcome.splits)

lemma time_loop_time:
  "time_loop c sels jd ''posted_time'' =
     (case find (\<lambda>sel. read_text c sel \<noteq> None) sels of
        None \<Rightarrow> jd ''posted_time''
      | Some sel \<Rightarrow> Some (Str (strip (the (read_text c sel)))))"
  by (induction sels) (auto simp: read_text_def split: outcome.splits)

lemma desc_loop_other: "k \<noteq> ''description'' \<Longrightarrow> desc_loop c sels jd k = jd k"
  by (induction sels) (simp_all split: outcome.splits)

lemma desc_loop_desc:
  "desc_loop c sels jd ''description'' =
     (case find (\<lambda>sel. read_text c sel \<noteq> None) sels of
        None \<Rightarrow> jd ''description''
      | Some sel \<Rightarrow> Some (Str (take 200 (strip (the (read_text c sel))) @ ''...'')))"
  by (induction sels) (auto simp: read_text_def split: outcome.splits)

lemma default_to_other: "k' \<noteq> k \<Longrightarrow> default_to k s jd k' = jd k'"
  by (simp add: default_to_def)

lemma default_to_same:
  "default_to k s jd k = (if truthy (jd k) then jd k else Some (Str s))"
  by (simp add: default_to_def)

text \<open>The four keys of a record, each in terms of the loop that sets it.\<close>

lemma extract_card_title:
  "extract_card c now ''title'' =
     (case find (\<lambda>sel. \<exists>t. candidate_text c sel = Some t \<and> t \<noteq> []) title_selectors of
        None \<Rightarrow> Some (Str ''Title not found'')
      | Some sel \<Rightarrow> Some (Str (the (candidate_text c sel))))"
proof -
  have "extract_card c now ''title'' =
      default_to ''title'' ''Title not found'' (title_loop c title_selectors Map.empty) ''title''"
    by (simp add: extract_card_def Let_def desc_loop_other time_loop_other location_loop_other
          company_loop_other default_to_other)
  also have "\<dots> = (case find (\<lambda>sel. \<exists>t. candidate_text c sel = Some t \<and> t \<noteq> []) title_selectors of
        None \<Rightarrow> Some (Str ''Title not found'')
      | Some sel \<Rightarrow> Some (Str (the (candidate_text c sel))))"
    by (auto simp: default_to_same title_loop_title split: option.splits dest: find_Some_iff[THEN iffD1])
  finally show ?thesis .
qed

lemma extract_card_company:
  "extract_card c now ''company'' =
     (case find (\<lambda>sel. \<exists>t. candidate_text c sel = Some t \<and> company_accepts t) company_selectors of
        None \<Rightarrow> Some (Str ''Company not found'')
      | Some sel \<Rightarrow> Some (Str (the (candidate_text c sel))))"
proof -
  let ?jd = "default_to ''title'' ''Title not found'' (title_loop c title_selectors Map.empty)"
  have none: "?jd ''company'' = None"
    by (simp add: default_to_other title_loop_other)
  have "extract_card c now ''company'' =
      default_to ''company'' ''Company not found'' (company_loop c company_selectors ?jd) ''company''"
    by (simp add: extract_card_def Let_def desc_loop_other time_loop_other location_loop_other
          default_to_other)
  also have "\<dots> = (case find (\<lambda>sel. \<exists>t. candidate_text c sel = Some t \<and> company_accepts t) company_selectors of
        None \<Rightarrow> Some (Str ''Company not found'')
      | Some sel \<Rightarrow> Some (Str (the (candidate_text c sel))))"
    by (auto simp: default_to_same company_loop_company none company_accepts_def
          split: option.splits dest: find_Some_iff[THEN iffD1])
  finally show ?thesis .
qed

lemma extract_card_location:
  "extract_card c now ''location'' =
     (case find (\<lambda>sel. \<exists>t. candidate_text c sel = Some t \<and> location_accepts t) location_selectors of
        None \<Rightarrow> Some (Str ''Location not found'')
      | Some sel \<Rightarrow> Some (Str (the (candidate_text c sel))))"
proof -
  let ?jd = "default_to ''company'' ''Company not found''
      (company_loop c company_selectors
        (default_to ''title'' ''Title not found'' (title_loop c title_selectors Map.empty)))"
  have none: "?jd ''location'' = None"
    by (simp add: default_to_other title_loop_other company_loop_other)
  have "extract_card c now ''location'' =
      default_to ''location'' ''Location not found'' (location_loop c location_selectors ?jd) ''location''"
    by (simp add: extract_card_def Let_def desc_loop_other time_loop_other)
  also have "\<dots> = (case find (\<lambda>sel. \<exists>t. candidate_text c sel = Some t \<and> location_accepts t) location_selectors of
        None \<Rightarrow> Some (Str ''Location not found'')
      | Some sel \<Rightarrow> Some (Str (the (candidate_text c sel))))"
    by (auto simp: default_to_same location_loop_location none location_accepts_def
          split: option.splits dest: find_Some_iff[THEN iffD1])
  finally show ?thesis .
qed

lemma extract_card_extracted_at: "extract_card c now ''extracted_at'' = Some (Str now)"
  by (simp add: extract_card_def Let_def)

lemma extract_card_posted_time:
  "extract_card c now ''posted_time'' =
     (case find (\<lambda>sel. read_text c sel \<noteq> None) time_selectors of
        None \<Rightarrow> None
      | Some sel \<Rightarrow> Some (Str (strip (the (read_text c sel)))))"
  by (simp add: extract_card_def Let_def desc_loop_other time_loop_time location_loop_other
        company_loop_other default_to_other title_loop_other split: option.splits)

lemma extract_card_description:
  "extract_card c now ''description'' =
     (case find (\<lambda>sel. read_text c sel \<noteq> None) desc_selectors of
        None \<Rightarrow> None
      | Some sel \<Rightarrow> Some (Str (take 200 (strip (the (read_text c sel))) @ ''...'')))"
  by (simp add: extract_card_def Let_def desc_loop_desc time_loop_other location_loop_other
        company_loop_other default_to_other title_loop_other split: option.splits)

lemma candidate_text_iff:
  "candidate_text c sel = Some t \<longleftrightarrow>
     (\<exists>el raw. card_find_element c sel = Found el \<and> elem_text el = Found raw
        \<and> t = normalize_spaces raw)"
  by (auto simp: candidate_text_def read_text_def split: outcome.splits)

lemma company_accepts_iff:
  "company_accepts t \<longleftrightarrow>
     t \<noteq> [] \<and> length t < 100 \<and> \<not> (\<exists>w \<in> set company_words. contains w (lower t))"
  by (auto simp: company_accepts_def contains_any_def list_ex_iff)

lemma company_examples:
  "company_accepts ''Acme Corp''" "\<not> company_accepts ''Senior Engineer Team''"
  by (simp_all add: company_accepts_def company_words_def text_eval)

lemma company_choice:
  "(\<exists>i < length sels. \<exists>t. candidate_text c (sels ! i) = Some t \<and> company_accepts t
        \<and> (\<forall>j < i. \<forall>u. candidate_text c (sels ! j) = Some u \<longrightarrow> \<not> company_accepts u)
        \<and> (case find (\<lambda>sel. \<exists>t. candidate_text c sel = Some t \<and> company_accepts t) sels of
              None \<Rightarrow> Some (Str ''Company not found'')
            | Some sel \<Rightarrow> Some (Str (the (candidate_text c sel)))) = Some (Str t))
   \<or> ((\<forall>i < length sels. \<forall>u. candidate_text c (sels ! i) = Some u \<longrightarrow> \<not> company_accepts u)
        \<and> (case find (\<lambda>sel. \<exists>t. candidate_text c sel = Some t \<and> company_accepts t) sels of
              None \<Rightarrow> Some (Str ''Company not found'')
            | Some sel \<Rightarrow> Some (Str (the (candidate_text c sel)))) = Some (Str ''Company not found''))"
proof (cases "find (\<lambda>sel. \<exists>t. candidate_text c sel = Some t \<and> company_accepts t) sels")
  case None
  then have "\<forall>i < length sels. \<forall>u. candidate_text c (sels ! i) = Some u \<longrightarrow> \<not> company_accepts u"
    by (auto simp: find_None_iff dest: nth_mem)
  with None show ?thesis by simp
next
  case (Some sel)
  then obtain i t where "i < length sels" "sel = sels ! i"
    "candidate_text c (sels ! i) = Some t" "company_accepts t"
    "\<forall>j < i. \<not> (\<exists>u. candidate_text c (sels ! j) = Some u \<and> company_accepts u)"
    by (auto simp: find_Some_iff)
  with Some show ?thesis by (intro disjI1) (auto intro!: exI[of _ i])
qed

text \<open>
  C4, as the code has it. A candidate is the normalised text of the element a company
  selector finds. The company of a record is the first candidate, in selector order, that
  is not empty, is shorter than 100 characters, and whose lower-cased form contains none
  of the words analyst, engineer, manager, developer, specialist, intern, associate; every
  candidate failing one of these tests is passed over; when no candidate passes, the
  company is \<open>Company not found\<close>. \<open>Acme Corp\<close> passes, \<open>Senior Engineer Team\<close> does not.
\<close>

theorem company_validation:
  "(\<forall>t. company_accepts t \<longleftrightarrow>
       t \<noteq> [] \<and> length t < 100 \<and> \<not> (\<exists>w \<in> set company_words. contains w (lower t)))
   \<and> company_words = [''analyst'', ''engineer'', ''manager'', ''developer'', ''specialist'',
                        ''intern'', ''associate'']
   \<and> (\<forall>sel t. candidate_text c sel = Some t \<longleftrightarrow>
         (\<exists>el raw. card_find_element c sel = Found el \<and> elem_text el = Found raw
            \<and> t = normalize_spaces raw))
   \<and> ((\<exists>i < length company_selectors. \<exists>t.
           candidate_text c (company_selectors ! i) = Some t \<and> company_accepts t
           \<and> (\<forall>j < i. \<forall>u. candidate_text c (company_selectors ! j) = Some u
                  \<longrightarrow> \<not> company_accepts u)
           \<and> extract_card c now ''company'' = Some (Str t))
       \<or> ((\<forall>i < length company_selectors. \<forall>u.
              candidate_text c (company_selectors ! i) = Some u \<longrightarrow> \<not> company_accepts u)
           \<and> extract_card c now ''company'' = Some (Str ''Company not found'')))
   \<and> company_accepts ''Acme Corp'' \<and> \<not> company_accepts ''Senior Engineer Team''"
  using company_accepts_iff candidate_text_iff [of c] company_examples
        company_choice [of company_selectors c] company_words_def
  unfolding extract_card_company [of c now, symmetric]
  by (intro conjI allI)

lemmas card_eval = extract_card_def Let_def default_to_def card_of_def text_element_def
  title_selectors_def company_selectors_def location_selectors_def time_selectors_def
  desc_selectors_def job_link_of_def fallback_link_def normalize_spaces_def
  company_accepts_def location_accepts_def company_words_def location_words_def text_eval

lemma hundred_chars_facts:
  "length hundred_chars = 100"
  "\<not> contains_any company_words (lower hundred_chars)"
  "normalize_spaces hundred_chars = hundred_chars"
  by (simp_all add: hundred_chars_def company_words_def normalize_spaces_def text_eval)

text \<open>
  A candidate of exactly 100 characters, which does not exceed 100 and holds none of the
  words, is not accepted: the record gets the sentinel.
\<close>

theorem company_length_100_counterexample:
  "length hundred_chars = 100
   \<and> hundred_chars \<noteq> []
   \<and> \<not> contains_any company_words (lower hundred_chars)
   \<and> candidate_text (card_of [(''.artdeco-entity-lockup__subtitle'', hundred_chars)])
        ''.artdeco-entity-lockup__subtitle'' = Some hundred_chars
   \<and> extract_card (card_of [(''.artdeco-entity-lockup__subtitle'', hundred_chars)])
        ''2025-07-01 12:00:00'' ''company'' = Some (Str ''Company not found'')"
proof -
  let ?c = "card_of [(''.artdeco-entity-lockup__subtitle'', hundred_chars)]"
  have na: "\<not> company_accepts hundred_chars"
    by (simp add: company_accepts_def hundred_chars_facts)
  have cand: "\<And>sel. candidate_text ?c sel =
      (if sel = ''.artdeco-entity-lockup__subtitle'' then Some hundred_chars else None)"
    by (simp add: candidate_text_def read_text_def card_of_def text_element_def
          hundred_chars_facts)
  have "find (\<lambda>sel. \<exists>t. candidate_text ?c sel = Some t \<and> company_accepts t) company_selectors
          = None"
    by (auto simp: find_None_iff cand na)
  then have "extract_card ?c ''2025-07-01 12:00:00'' ''company'' = Some (Str ''Company not found'')"
    by (simp add: extract_card_company)
  moreover have "hundred_chars \<noteq> []" using hundred_chars_facts(1) by auto
  ultimately show ?thesis using hundred_chars_facts cand by simp
qed

lemma acme_card_record:
  "map (extract_card acme_card now)
     [''title'', ''company'', ''location'', ''posted_time'', ''description'', ''extracted_at'', ''job_link'']
   = [Some (Str ''ML Engineer''), Some (Str ''Acme Corp''), Some (Str ''Bengaluru, India''),
      None, None, Some (Str now), None]"
  by (simp add: acme_card_def card_eval)

lemma bare_card_record:
  "map (extract_card bare_card now)
     [''title'', ''company'', ''location'', ''posted_time'', ''description'', ''extracted_at'', ''job_link'']
   = [Some (Str ''Title not found''), Some (Str ''Company not found''),
      Some (Str ''Location not found''), None, None, Some (Str now), None]"
  by (simp add: bare_card_def card_eval)

theorem company_validation_witness:
  "company_accepts ''Acme Corp'' \<and> \<not> company_accepts ''Senior Engineer Team''
   \<and> candidate_text acme_card ''.artdeco-entity-lockup__subtitle'' = Some ''Senior Engineer Team''
   \<and> candidate_text acme_card ''.base-search-card__subtitle'' = Some ''Acme Corp''
   \<and> extract_card acme_card ''2025-07-01 12:00:00'' ''company'' = Some (Str ''Acme Corp'')
   \<and> extract_card bare_card ''2025-07-01 12:00:00'' ''company'' = Some (Str ''Company not found'')"
proof -
  have "candidate_text acme_card ''.artdeco-entity-lockup__subtitle'' = Some ''Senior Engineer Team''"
    "candidate_text acme_card ''.base-search-card__subtitle'' = Some ''Acme Corp''"
    by (simp_all add: candidate_text_def read_text_def acme_card_def card_of_def text_element_def
          normalize_spaces_def text_eval)
  moreover have "extract_card acme_card ''2025-07-01 12:00:00'' ''company'' = Some (Str ''Acme Corp'')"
    "extract_card bare_card ''2025-07-01 12:00:00'' ''company'' = Some (Str ''Company not found'')"
    using acme_card_record [of "''2025-07-01 12:00:00''"] bare_card_record [of "''2025-07-01 12:00:00''"]
    by simp_all
  ultimately show ?thesis
    using company_validation [of acme_card "''2025-07-01 12:00:00''"] by blast
qed

lemma cards_loop_length: "length (cards_loop cs i clock) = length cs"
  by (induction cs arbitrary: i) simp_all

lemma cards_loop_nth:
  "k < length cs \<Longrightarrow> cards_loop cs i clock ! k = extract_card (cs ! k) (clock (i + k))"
proof (induction cs arbitrary: i k)
  case Nil
  then show ?case by simp
next
  case (Cons c cs)
  show ?case
  proof (cases k)
    case 0
    then show ?thesis by simp
  next
    case (Suc k')
    with Cons.prems have "k' < length cs" by simp
    from Cons.IH [OF this, of "Suc i"] Suc show ?thesis by simp
  qed
qed

lemma slice_to_length:
  "length (slice_to xs n) =
     (if 0 \<le> n then min (nat n) (length xs) else nat (int (length xs) + n))"
proof (cases "0 \<le> n")
  case True
  then show ?thesis by (simp add: slice_to_def)
next
  case False
  then have "nat (int (length xs) + n) \<le> length xs" by linarith
  with False show ?thesis by (simp add: slice_to_def min_def)
qed

lemma slice_to_nth: "k < length (slice_to xs n) \<Longrightarrow> slice_to xs n ! k = xs ! k"
  by (simp add: slice_to_def split: if_splits)

lemma extract_job_listings_eq:
  "extract_job_listings pg max_jobs debug_mode clock =
     cards_loop (slice_to (located_cards pg) max_jobs) 0 clock"
  by (auto simp: extract_job_listings_def located_cards_def slice_to_def split: option.splits)

lemma extract_card_title_nonempty:
  "\<exists>t. extract_card c now ''title'' = Some (Str t) \<and> t \<noteq> []"
  by (auto simp: extract_card_title split: option.splits dest!: find_Some_iff[THEN iffD1])

lemma extract_card_company_nonempty:
  "\<exists>t. extract_card c now ''company'' = Some (Str t) \<and> t \<noteq> []"
  by (auto simp: extract_card_company company_accepts_def split: option.splits
        dest!: find_Some_iff[THEN iffD1])

lemma extract_card_location_nonempty:
  "\<exists>t. extract_card c now ''location'' = Some (Str t) \<and> t \<noteq> []"
  by (auto simp: extract_card_location location_accepts_def split: option.splits
        dest!: find_Some_iff[THEN iffD1])

lemma extract_card_title_sentinel:
  "(\<forall>sel \<in> set title_selectors. \<forall>t. candidate_text c sel = Some t \<longrightarrow> t = [])
   \<Longrightarrow> extract_card c now ''title'' = Some (Str ''Title not found'')"
  by (auto simp: extract_card_title split: option.splits dest!: find_Some_iff[THEN iffD1])

lemma extract_card_company_sentinel:
  "(\<forall>sel \<in> set company_selectors. \<forall>t. candidate_text c sel = Some t \<longrightarrow> \<not> company_accepts t)
   \<Longrightarrow> extract_card c now ''company'' = Some (Str ''Company not found'')"
  by (auto simp: extract_card_company split: option.splits dest!: find_Some_iff[THEN iffD1])

lemma extract_card_location_sentinel:
  "(\<forall>sel \<in> set location_selectors. \<forall>t. candidate_text c sel = Some t \<longrightarrow> \<not> location_accepts t)
   \<Longrightarrow> extract_card c now ''location'' = Some (Str ''Location not found'')"
  by (auto simp: extract_card_location split: option.splits dest!: find_Some_iff[THEN iffD1])

lemma extract_card_posted_time_absent:
  "extract_card c now ''posted_time'' = None \<longleftrightarrow>
     (\<forall>sel \<in> set time_selectors. read_text c sel = None)"
proof -
  have "extract_card c now ''posted_time'' = None \<longleftrightarrow>
      find (\<lambda>sel. read_text c sel \<noteq> None) time_selectors = None"
    by (simp add: extract_card_posted_time split: option.splits)
  then show ?thesis by (auto simp: find_None_iff)
qed

lemma extract_card_description_absent:
  "extract_card c now ''description'' = None \<longleftrightarrow>
     (\<forall>sel \<in> set desc_selectors. read_text c sel = None)"
proof -
  have "extract_card c now ''description'' = None \<longleftrightarrow>
      find (\<lambda>sel. read_text c sel \<noteq> None) desc_selectors = None"
    by (simp add: extract_card_description split: option.splits)
  then show ?thesis by (auto simp: find_None_iff)
qed

text \<open>
  C10. The listing extractor returns one record per card of \<open>job_cards[:max_jobs]\<close>, in
  the order of the cards, the record of index \<open>i\<close> being the one extracted from the card
  of index \<open>i\<close>; \<open>max_jobs\<close> is a count, and for every \<open>max_jobs\<close> from 0 on these are at
  most \<open>max_jobs\<close> records. Every record holds a non-empty string under \<open>title\<close>,
  \<open>company\<close> and \<open>location\<close>, which is the sentinel when no selector yields an
  acceptable candidate, and the clock reading under \<open>extracted_at\<close>; \<open>posted_time\<close> and
  \<open>description\<close> are absent exactly when none of their selectors yields an element whose
  text can be read.
\<close>

theorem extract_job_listings_records:
  "length (extract_job_listings pg max_jobs debug_mode clock) =
       (if 0 \<le> max_jobs then min (nat max_jobs) (length (located_cards pg))
        else nat (int (length (located_cards pg)) + max_jobs))
   \<and> (0 \<le> max_jobs \<longrightarrow> int (length (extract_job_listings pg max_jobs debug_mode clock)) \<le> max_jobs)
   \<and> length (extract_job_listings pg max_jobs debug_mode clock) \<le> length (located_cards pg)
   \<and> (\<forall>i < length (extract_job_listings pg max_jobs debug_mode clock).
         extract_job_listings pg max_jobs debug_mode clock ! i
           = extract_card (located_cards pg ! i) (clock i))
   \<and> (\<forall>c now.
         (\<exists>t. extract_card c now ''title'' = Some (Str t) \<and> t \<noteq> [])
       \<and> (\<exists>t. extract_card c now ''company'' = Some (Str t) \<and> t \<noteq> [])
       \<and> (\<exists>t. extract_card c now ''location'' = Some (Str t) \<and> t \<noteq> [])
       \<and> extract_card c now ''extracted_at'' = Some (Str now)
       \<and> ((\<forall>sel \<in> set title_selectors. \<forall>t. candidate_text c sel = Some t \<longrightarrow> t = [])
            \<longrightarrow> extract_card c now ''title'' = Some (Str ''Title not found''))
       \<and> ((\<forall>sel \<in> set company_selectors. \<forall>t. candidate_text c sel = Some t
               \<longrightarrow> \<not> company_accepts t)
            \<longrightarrow> extract_card c now ''company'' = Some (Str ''Company not found''))
       \<and> ((\<forall>sel \<in> set location_selectors. \<forall>t. candidate_text c sel = Some t
               \<longrightarrow> \<not> location_accepts t)
            \<longrightarrow> extract_card c now ''location'' = Some (Str ''Location not found''))
       \<and> (extract_card c now ''posted_time'' = None \<longleftrightarrow>
             (\<forall>sel \<in> set time_selectors. read_text c sel = None))
       \<and> (extract_card c now ''description'' = None \<longleftrightarrow>
             (\<forall>sel \<in> set desc_selectors. read_text c sel = None)))"
proof -
  let ?jobs = "extract_job_listings pg max_jobs debug_mode clock"
  let ?cards = "located_cards pg"
  have len: "length ?jobs = (if 0 \<le> max_jobs then min (nat max_jobs) (length ?cards)
        else nat (int (length ?cards) + max_jobs))"
    by (simp add: extract_job_listings_eq cards_loop_length slice_to_length)
  have bound: "0 \<le> max_jobs \<longrightarrow> int (length ?jobs) \<le> max_jobs"
    unfolding len by auto
  have le: "length ?jobs \<le> length ?cards"
    unfolding len by auto
  have nth: "\<forall>i < length ?jobs. ?jobs ! i = extract_card (?cards ! i) (clock i)"
  proof (intro allI impI)
    fix i assume "i < length ?jobs"
    then have i: "i < length (slice_to ?cards max_jobs)"
      by (simp add: extract_job_listings_eq cards_loop_length)
    then show "?jobs ! i = extract_card (?cards ! i) (clock i)"
      by (simp add: extract_job_listings_eq cards_loop_nth slice_to_nth)
  qed
  have rec: "\<forall>c now.
         (\<exists>t. extract_card c now ''title'' = Some (Str t) \<and> t \<noteq> [])
       \<and> (\<exists>t. extract_card c now ''company'' = Some (Str t) \<and> t \<noteq> [])
       \<and> (\<exists>t. extract_card c now ''location'' = Some (Str t) \<and> t \<noteq> [])
       \<and> extract_card c now ''extracted_at'' = Some (Str now)
       \<and> ((\<forall>sel \<in> set title_selectors. \<forall>t. candidate_text c sel = Some t \<longrightarrow> t = [])
            \<longrightarrow> extract_card c now ''title'' = Some (Str ''Title not found''))
       \<and> ((\<forall>sel \<in> set company_selectors. \<forall>t. candidate_text c sel = Some t
               \<longrightarrow> \<not> company_accepts t)
            \<longrightarrow> extract_card c now ''company'' = Some (Str ''Company not found''))
       \<and> ((\<forall>sel \<in> set location_selectors. \<forall>t. candidate_text c sel = Some t
               \<longrightarrow> \<not> location_accepts t)
            \<longrightarrow> extract_card c now ''location'' = Some (Str ''Location not found''))
       \<and> (extract_card c now ''posted_time'' = None \<longleftrightarrow>
             (\<forall>sel \<in> set time_selectors. read_text c sel = None))
       \<and> (extract_card c now ''description'' = None \<longleftrightarrow>
             (\<forall>sel \<in> set desc_selectors. read_text c sel = None))"
    using extract_card_title_nonempty extract_card_company_nonempty
      extract_card_location_nonempty extract_card_extracted_at
      extract_card_title_sentinel extract_card_company_sentinel extract_card_location_sentinel
      extract_card_posted_time_absent extract_card_description_absent
    by (intro allI conjI impI) 
  from len bound le nth rec show ?thesis by (intro conjI)
qed

lemma located_cards_results_of: "located_cards (results_of cards) = cards"
  by (cases "cards = []")
     (simp_all add: located_cards_def results_of_def job_card_selectors_def)

theorem extract_job_listings_records_witness:
  "length (extract_job_listings (results_of [acme_card, bare_card]) 50 False
             (\<lambda>i. ''2025-07-01 12:00:00'')) = 2
   \<and> length (extract_job_listings (results_of [acme_card, bare_card]) 1 False
             (\<lambda>i. ''2025-07-01 12:00:00'')) = 1
   \<and> map (extract_job_listings (results_of [acme_card, bare_card]) 50 False
             (\<lambda>i. ''2025-07-01 12:00:00'') ! 0)
        [''title'', ''company'', ''location'', ''posted_time'', ''description'',
         ''extracted_at'', ''job_link'']
      = [Some (Str ''ML Engineer''), Some (Str ''Acme Corp''), Some (Str ''Bengaluru, India''),
         None, None, Some (Str ''2025-07-01 12:00:00''), None]
   \<and> map (extract_job_listings (results_of [acme_card, bare_card]) 50 False
             (\<lambda>i. ''2025-07-01 12:00:00'') ! 1)
        [''title'', ''company'', ''location'', ''posted_time'', ''description'',
         ''extracted_at'', ''job_link'']
      = [Some (Str ''Title not found''), Some (Str ''Company not found''),
         Some (Str ''Location not found''), None, None, Some (Str ''2025-07-01 12:00:00''), None]"
proof -
  let ?pg = "results_of [acme_card, bare_card]"
  let ?clock = "\<lambda>i::nat. ''2025-07-01 12:00:00''"
  note thm50 = extract_job_listings_records [of ?pg 50 False ?clock]
  note thm1 = extract_job_listings_records [of ?pg 1 False ?clock]
  from thm50 have l50: "length (extract_job_listings ?pg 50 False ?clock) = 2"
    by (simp add: located_cards_results_of)
  from thm1 have l1: "length (extract_job_listings ?pg 1 False ?clock) = 1"
    by (simp add: located_cards_results_of)
  from thm50 have nth: "\<forall>i < length (extract_job_listings ?pg 50 False ?clock).
         extract_job_listings ?pg 50 False ?clock ! i
           = extract_card (located_cards ?pg ! i) (?clock i)"
    by blast
  have n0: "extract_job_listings ?pg 50 False ?clock ! 0
      = extract_card acme_card ''2025-07-01 12:00:00''"
    using nth l50 by (simp add: located_cards_results_of)
  have n1: "extract_job_listings ?pg 50 False ?clock ! 1
      = extract_card bare_card ''2025-07-01 12:00:00''"
    using nth l50 by (simp add: located_cards_results_of)
  show ?thesis
    unfolding n0 n1 l50 l1
    using acme_card_record [of "''2025-07-01 12:00:00''"]
          bare_card_record [of "''2025-07-01 12:00:00''"]
    by simp
qed

section \<open>The title gate\<close>

text \<open>
  C2, as the code has it. \<open>LinkedInJobScraper.run\<close> gates on the title: on every
  document \<open>p\<close> its extraction part returns none when the title resolves to none on \<open>p\<close>,
  whatever the other fields of \<open>p\<close> hold; and when the title resolves to \<open>t\<close>, then \<open>t\<close>
  is not empty and a record with that title, the address and the clock reading is
  returned. \<open>run\<close> itself returns this result for the document the driver delivers; an
  exception of the driver that \<open>run\<close> does not catch leaves \<open>run\<close> before any document is
  read. The listing extractor \<open>extract_job_listings\<close> has no such gate: every card of
  \<open>job_cards[:max_jobs]\<close> yields a record, and a card whose title does not resolve yields
  a record with the title \<open>Title not found\<close>.
\<close>

theorem run_title_gate:
  "(get_element_text_with_fallbacks (selectors s) p ''title'' = None
      \<longrightarrow> extract_details s p now = None)
   \<and> (\<forall>t. get_element_text_with_fallbacks (selectors s) p ''title'' = Some t
          \<longrightarrow> t \<noteq> [] \<and> (\<exists>r. extract_details s p now = Some r \<and> job_title r = t
                               \<and> url r = job_url s \<and> scraped_at r = now))
   \<and> (load_document s = Inr p \<longrightarrow> run s now = Inr (extract_details s p now))
   \<and> (\<forall>e. load_document s = Inl e \<longrightarrow> run s now = Inl e)
   \<and> length (extract_job_listings pg max_jobs debug_mode clock)
       = length (slice_to (located_cards pg) max_jobs)
   \<and> (\<forall>i < length (extract_job_listings pg max_jobs debug_mode clock).
         extract_job_listings pg max_jobs debug_mode clock ! i
           = extract_card (located_cards pg ! i) (clock i))
   \<and> (\<forall>c. (\<forall>sel \<in> set title_selectors. \<forall>t. candidate_text c sel = Some t \<longrightarrow> t = [])
          \<longrightarrow> extract_card c now ''title'' = Some (Str ''Title not found''))"
proof -
  have gate: "(get_element_text_with_fallbacks (selectors s) p ''title'' = None
      \<longrightarrow> extract_details s p now = None)
   \<and> (\<forall>t. get_element_text_with_fallbacks (selectors s) p ''title'' = Some t
          \<longrightarrow> t \<noteq> [] \<and> (\<exists>r. extract_details s p now = Some r \<and> job_title r = t
                               \<and> url r = job_url s \<and> scraped_at r = now))
   \<and> (load_document s = Inr p \<longrightarrow> run s now = Inr (extract_details s p now))
   \<and> (\<forall>e. load_document s = Inl e \<longrightarrow> run s now = Inl e)"
    using extract_details_None [of s p now] extract_details_Some [of s p _ now]
          get_element_text_with_fallbacks_nonempty [of "selectors s" p "''title''"]
    by (auto simp: run_def)
  have len: "length (extract_job_listings pg max_jobs debug_mode clock)
       = length (slice_to (located_cards pg) max_jobs)"
    by (simp add: extract_job_listings_eq cards_loop_length)
  have nth: "\<forall>i < length (extract_job_listings pg max_jobs debug_mode clock).
         extract_job_listings pg max_jobs debug_mode clock ! i
           = extract_card (located_cards pg ! i) (clock i)"
  proof (intro allI impI)
    fix i assume "i < length (extract_job_listings pg max_jobs debug_mode clock)"
    then have "i < length (slice_to (located_cards pg) max_jobs)"
      by (simp add: extract_job_listings_eq cards_loop_length)
    then show "extract_job_listings pg max_jobs debug_mode clock ! i
           = extract_card (located_cards pg ! i) (clock i)"
      by (simp add: extract_job_listings_eq cards_loop_nth slice_to_nth)
  qed
  have sentinel: "\<forall>c. (\<forall>sel \<in> set title_selectors. \<forall>t. candidate_text c sel = Some t \<longrightarrow> t = [])
          \<longrightarrow> extract_card c now ''title'' = Some (Str ''Title not found'')"
    using extract_card_title_sentinel by blast
  from gate len nth sentinel show ?thesis by (intro conjI) blast+
qed

text \<open>
  A view page that shows a title and nothing else gives a record carrying that title; a
  view page that shows a company, a location and a description but no title gives none.
\<close>

theorem run_title_gate_witness:
  "map_sum id (map_option job_title)
     (run (init ''https://www.linkedin.com/jobs/view/4255281290''
            (still_driver (page_of [(''.top-card-layout__title'', '' ML Engineer '')])))
          ''2025-07-01 12:00:00'')
     = Inr (Some ''ML Engineer'')
   \<and> run (init ''https://www.linkedin.com/jobs/view/4255281290''
            (still_driver (page_of [(''.topcard__org-name-link'', ''Acme''),
                                    (''.topcard__flavor--bullet'', ''Bengaluru, India''),
                                    (''.description__text'', ''Build models.'')])))
          ''2025-07-01 12:00:00''
     = Inr None"
proof -
  let ?u = "''https://www.linkedin.com/jobs/view/4255281290''"
  let ?p = "page_of [(''.top-card-layout__title'', '' ML Engineer '')]"
  let ?q = "page_of [(''.topcard__org-name-link'', ''Acme''),
                     (''.topcard__flavor--bullet'', ''Bengaluru, India''),
                     (''.description__text'', ''Build models.'')]"
  have view: "detect_page_type ?u = ''view''"
    by (simp add: detect_page_type_def)
  have lp: "load_document (init ?u (still_driver ?p)) = Inr ?p"
    by (simp add: load_document_def init_def view still_driver_def scroll_and_wait_def
          expand_description_def selectors_get_def VIEW_PAGE_SELECTORS_def page_of_def)
  have lq: "load_document (init ?u (still_driver ?q)) = Inr ?q"
    by (simp add: load_document_def init_def view still_driver_def scroll_and_wait_def
          expand_description_def selectors_get_def VIEW_PAGE_SELECTORS_def page_of_def)
  have tp: "get_element_text_with_fallbacks (selectors (init ?u (still_driver ?p))) ?p ''title''
              = Some ''ML Engineer''"
    by (simp add: init_def view get_element_text_with_fallbacks_def selectors_get_def
          VIEW_PAGE_SELECTORS_def page_of_def text_element_def text_eval)
  have tq: "get_element_text_with_fallbacks (selectors (init ?u (still_driver ?q))) ?q ''title''
              = None"
    by (simp add: init_def view get_element_text_with_fallbacks_def selectors_get_def
          VIEW_PAGE_SELECTORS_def page_of_def text_element_def text_eval)
  note gp = run_title_gate [of "init ?u (still_driver ?p)" ?p "''2025-07-01 12:00:00''"
      "results_of []" 0 False "\<lambda>i. []"]
  note gq = run_title_gate [of "init ?u (still_driver ?q)" ?q "''2025-07-01 12:00:00''"
      "results_of []" 0 False "\<lambda>i. []"]
  from gp [THEN conjunct2, THEN conjunct1] tp
  obtain r where r: "extract_details (init ?u (still_driver ?p)) ?p ''2025-07-01 12:00:00'' = Some r"
    "job_title r = ''ML Engineer''"
    by blast
  from gp [THEN conjunct2, THEN conjunct2, THEN conjunct1] lp
  have "run (init ?u (still_driver ?p)) ''2025-07-01 12:00:00''
      = Inr (extract_details (init ?u (still_driver ?p)) ?p ''2025-07-01 12:00:00'')"
    by blast
  with r have a: "map_sum id (map_option job_title)
       (run (init ?u (still_driver ?p)) ''2025-07-01 12:00:00'') = Inr (Some ''ML Engineer'')"
    by simp
  from gq [THEN conjunct1] tq
  have "extract_details (init ?u (still_driver ?q)) ?q ''2025-07-01 12:00:00'' = None"
    by blast
  moreover from gq [THEN conjunct2, THEN conjunct2, THEN conjunct1] lq
  have "run (init ?u (still_driver ?q)) ''2025-07-01 12:00:00''
      = Inr (extract_details (init ?u (still_driver ?q)) ?q ''2025-07-01 12:00:00'')"
    by blast
  ultimately have b: "run (init ?u (still_driver ?q)) ''2025-07-01 12:00:00'' = Inr None"
    by simp
  from a b show ?thesis by blast
qed

text \<open>
  A results page with one card that shows a company and a location but no title: the
  listing extractor returns a record for it, titled \<open>Title not found\<close>, where a title
  gate would return nothing.
\<close>

lemma untitled_card_record:
  "map (extract_card untitled_card now) [''title'', ''company'', ''location'', ''extracted_at'']
   = [Some (Str ''Title not found''), Some (Str ''Acme Corp''), Some (Str ''Bengaluru, India''),
      Some (Str now)]"
  by (simp add: untitled_card_def card_eval)

theorem listing_extractor_untitled_counterexample:
  "list_all (\<lambda>sel. candidate_text untitled_card sel = None) title_selectors
   \<and> length (extract_job_listings (results_of [untitled_card]) 50 False
               (\<lambda>i. ''2025-07-01 12:00:00'')) = 1
   \<and> map (extract_job_listings (results_of [untitled_card]) 50 False
               (\<lambda>i. ''2025-07-01 12:00:00'') ! 0)
        [''title'', ''company'', ''location'', ''extracted_at'']
      = [Some (Str ''Title not found''), Some (Str ''Acme Corp''),
         Some (Str ''Bengaluru, India''), Some (Str ''2025-07-01 12:00:00'')]"
proof -
  have cand: "list_all (\<lambda>sel. candidate_text untitled_card sel = None) title_selectors"
    by (simp add: candidate_text_def read_text_def untitled_card_def card_of_def
          title_selectors_def)
  have jobs: "extract_job_listings (results_of [untitled_card]) 50 False
               (\<lambda>i. ''2025-07-01 12:00:00'')
      = [extract_card untitled_card ''2025-07-01 12:00:00'']"
    by (simp add: extract_job_listings_eq located_cards_results_of slice_to_def)
  show ?thesis
    unfolding jobs using cand untitled_card_record [of "''2025-07-01 12:00:00''"] by simp
qed

end
